theory Spec2Isabelle
  imports Main
begin

section \<open>JavaScript strings and values\<close>

text \<open>
  A JavaScript string is a sequence of UTF-16 code units; it is modelled as the list of
  their numeric values. \<open>js\<close> turns an ASCII literal of the source into that list, so
  \<open>js ''ADMIN''\<close> is the source's \<^verbatim>\<open>'ADMIN'\<close>.
\<close>

type_synonym jsstring = "nat list"

definition js :: "string \<Rightarrow> jsstring" where
  "js s = map of_char s"

text \<open>
  The values that reach the session code are parsed JSON (response bodies and token
  payloads) and \<^verbatim>\<open>undefined\<close>. A number \<open>JNum m e\<close> stands for \<open>m * 10 ^ e\<close>; the code
  under study only ever asks whether a number is truthy, so the rounding to a double is
  not modelled. An object is the association list of its own properties; the property
  found first in the list is the one the object has.
\<close>

datatype jsval =
    JUndefined
  | JNull
  | JBool bool
  | JNum int int
  | JStr jsstring
  | JArr "jsval list"
  | JObj "(jsstring \<times> jsval) list"

text \<open>\<^verbatim>\<open>ToBoolean\<close>: what \<^verbatim>\<open>if (v)\<close>, \<^verbatim>\<open>!v\<close> and \<^verbatim>\<open>v || w\<close> test.\<close>

fun truthy :: "jsval \<Rightarrow> bool" where
  "truthy JUndefined = False"
| "truthy JNull = False"
| "truthy (JBool b) = b"
| "truthy (JNum m e) = (m \<noteq> 0)"
| "truthy (JStr s) = (s \<noteq> [])"
| "truthy (JArr xs) = True"
| "truthy (JObj ps) = True"

fun js_typeof :: "jsval \<Rightarrow> string" where
  "js_typeof JUndefined = ''undefined''"
| "js_typeof JNull = ''object''"
| "js_typeof (JBool b) = ''boolean''"
| "js_typeof (JNum m e) = ''number''"
| "js_typeof (JStr s) = ''string''"
| "js_typeof (JArr xs) = ''object''"
| "js_typeof (JObj ps) = ''object''"

text \<open>\<^verbatim>\<open>a || b\<close>: the first operand when it is truthy, the second otherwise.\<close>

definition js_or :: "jsval \<Rightarrow> jsval \<Rightarrow> jsval" where
  "js_or a b = (if truthy a then a else b)"

text \<open>
  \<^verbatim>\<open>v.k\<close> for the property names this code reads (\<^verbatim>\<open>accessToken\<close>, \<^verbatim>\<open>institutionId\<close>,
  \<^verbatim>\<open>institution\<close>, \<^verbatim>\<open>user\<close>, \<^verbatim>\<open>role\<close>, \<^verbatim>\<open>id\<close>, \<^verbatim>\<open>sub\<close>, \<^verbatim>\<open>message\<close>, \<^verbatim>\<open>error\<close>,
  \<^verbatim>\<open>title\<close>): an object yields its property or \<^verbatim>\<open>undefined\<close>; an array, a string, a
  number and a boolean have none of these properties. The source applies a plain \<^verbatim>\<open>.\<close>
  only to a value it has just tested to be truthy, so the \<^verbatim>\<open>TypeError\<close> of reading a
  property of \<^verbatim>\<open>null\<close> or \<^verbatim>\<open>undefined\<close> has no branch here; \<open>opt_member\<close> is \<^verbatim>\<open>v?.k\<close>.
\<close>

fun member :: "jsval \<Rightarrow> jsstring \<Rightarrow> jsval" where
  "member (JObj ps) k = (case map_of ps k of Some v \<Rightarrow> v | None \<Rightarrow> JUndefined)"
| "member v k = JUndefined"

definition opt_member :: "jsval \<Rightarrow> jsstring \<Rightarrow> jsval" where
  "opt_member v k = (if v = JUndefined \<or> v = JNull then JUndefined else member v k)"

text \<open>Truthiness of a \<^verbatim>\<open>string | null\<close>: neither \<^verbatim>\<open>null\<close> nor the empty string.\<close>

definition present :: "jsstring option \<Rightarrow> bool" where
  "present v = (case v of None \<Rightarrow> False | Some s \<Rightarrow> s \<noteq> [])"

text \<open>\<^verbatim>\<open>typeof v === 'string' && v ? v : null\<close>\<close>

definition nonempty_string :: "jsval \<Rightarrow> jsstring option" where
  "nonempty_string v = (case v of JStr s \<Rightarrow> (if s \<noteq> [] then Some s else None) | _ \<Rightarrow> None)"

text \<open>
  What a JavaScript computation can throw here: the exceptions of \<^verbatim>\<open>atob\<close>,
  \<^verbatim>\<open>decodeURIComponent\<close> and \<^verbatim>\<open>JSON.parse\<close>, and the \<^verbatim>\<open>ApiError\<close> of the HTTP client with
  its optional status, its message and its details.
\<close>

datatype js_error =
    InvalidCharacterError
  | URIError
  | SyntaxError
  | ApiError "nat option" jsval jsval

section \<open>Platform functions used by the token decoder\<close>

subsection \<open>\<^verbatim>\<open>String.prototype.split\<close> and \<^verbatim>\<open>replace\<close> with a one-character pattern\<close>

fun js_split :: "nat \<Rightarrow> jsstring \<Rightarrow> jsstring list" where
  "js_split sep [] = [[]]"
| "js_split sep (c # cs) =
     (if c = sep then [] # js_split sep cs
      else (case js_split sep cs of [] \<Rightarrow> [[c]] | seg # segs \<Rightarrow> (c # seg) # segs))"

definition replace_all :: "nat \<Rightarrow> nat \<Rightarrow> jsstring \<Rightarrow> jsstring" where
  "replace_all a b s = map (\<lambda>c. if c = a then b else c) s"

subsection \<open>\<^verbatim>\<open>atob\<close>: forgiving base64 decoding\<close>

definition b64_index :: "nat \<Rightarrow> nat option" where
  "b64_index c =
     (if 65 \<le> c \<and> c \<le> 90 then Some (c - 65)
      else if 97 \<le> c \<and> c \<le> 122 then Some (c - 71)
      else if 48 \<le> c \<and> c \<le> 57 then Some (c + 4)
      else if c = 43 then Some 62
      else if c = 47 then Some 63
      else None)"

fun b64_bytes :: "nat list \<Rightarrow> nat list" where
  "b64_bytes (a # b # c # d # rest) =
     (a * 4 + b div 16) # ((b mod 16) * 16 + c div 4) # ((c mod 4) * 64 + d) # b64_bytes rest"
| "b64_bytes [a, b, c] = [a * 4 + b div 16, (b mod 16) * 16 + c div 4]"
| "b64_bytes [a, b] = [a * 4 + b div 16]"
| "b64_bytes [a] = []"
| "b64_bytes [] = []"

definition strip_padding :: "jsstring \<Rightarrow> jsstring" where
  "strip_padding d =
     (if length d mod 4 = 0 then
        (case rev d of
           x # y # r \<Rightarrow> (if x = 61 \<and> y = 61 then rev r else if x = 61 then rev (y # r) else d)
         | _ \<Rightarrow> d)
      else d)"

definition atob :: "jsstring \<Rightarrow> js_error + jsstring" where
  "atob s =
     (let d = strip_padding (filter (\<lambda>c. c \<notin> {9, 10, 12, 13, 32}) s) in
      if length d mod 4 = 1 then Inl InvalidCharacterError
      else (case those (map b64_index d) of
              None \<Rightarrow> Inl InvalidCharacterError
            | Some sextets \<Rightarrow> Inr (b64_bytes sextets)))"

subsection \<open>\<^verbatim>\<open>escape\<close> and \<^verbatim>\<open>decodeURIComponent\<close>\<close>

definition hex_char :: "nat \<Rightarrow> nat" where
  "hex_char d = (if d < 10 then 48 + d else 55 + d)"

definition hex_digit :: "nat \<Rightarrow> nat option" where
  "hex_digit c =
     (if 48 \<le> c \<and> c \<le> 57 then Some (c - 48)
      else if 65 \<le> c \<and> c \<le> 70 then Some (c - 55)
      else if 97 \<le> c \<and> c \<le> 102 then Some (c - 87)
      else None)"

definition unescaped :: "nat \<Rightarrow> bool" where
  "unescaped c =
     ((65 \<le> c \<and> c \<le> 90) \<or> (97 \<le> c \<and> c \<le> 122) \<or> (48 \<le> c \<and> c \<le> 57)
      \<or> c \<in> {64, 42, 95, 43, 45, 46, 47})"

definition escape_unit :: "nat \<Rightarrow> jsstring" where
  "escape_unit c =
     (if unescaped c then [c]
      else if c < 256 then [37, hex_char (c div 16), hex_char (c mod 16)]
      else [37, 117, hex_char (c div 4096), hex_char (c div 256 mod 16),
            hex_char (c div 16 mod 16), hex_char (c mod 16)])"

definition escape :: "jsstring \<Rightarrow> jsstring" where
  "escape s = concat (map escape_unit s)"

text \<open>The byte that \<^verbatim>\<open>%XY\<close> at the head of a string denotes.\<close>

definition pct_byte :: "jsstring \<Rightarrow> nat option" where
  "pct_byte s =
     (case s of
        p # h # l # _ \<Rightarrow>
          (if p = 37 then
             (case hex_digit h of
                None \<Rightarrow> None
              | Some a \<Rightarrow> (case hex_digit l of None \<Rightarrow> None | Some b \<Rightarrow> Some (16 * a + b)))
           else None)
      | _ \<Rightarrow> None)"

fun pct_bytes :: "nat \<Rightarrow> jsstring \<Rightarrow> nat list option" where
  "pct_bytes 0 s = Some []"
| "pct_bytes (Suc n) s =
     (case pct_byte s of
        None \<Rightarrow> None
      | Some b \<Rightarrow> map_option ((#) b) (pct_bytes n (drop 3 s)))"

text \<open>The number of leading one bits of a byte with its high bit set.\<close>

definition leading_ones :: "nat \<Rightarrow> nat" where
  "leading_ones b =
     (if b < 192 then 1 else if b < 224 then 2 else if b < 240 then 3
      else if b < 248 then 4 else 5)"

text \<open>The code point of a well-formed UTF-8 sequence of two to four bytes.\<close>

definition continuation :: "nat \<Rightarrow> bool" where
  "continuation b = (128 \<le> b \<and> b < 192)"

fun utf8_code_point :: "nat list \<Rightarrow> nat option" where
  "utf8_code_point [a, b] =
     (if 194 \<le> a \<and> a < 224 \<and> continuation b then Some ((a - 192) * 64 + (b - 128)) else None)"
| "utf8_code_point [a, b, c] =
     (let v = (a - 224) * 4096 + (b - 128) * 64 + (c - 128) in
      if 224 \<le> a \<and> a < 240 \<and> continuation b \<and> continuation c
         \<and> 2048 \<le> v \<and> \<not> (55296 \<le> v \<and> v < 57344)
      then Some v else None)"
| "utf8_code_point [a, b, c, d] =
     (let v = (a - 240) * 262144 + (b - 128) * 4096 + (c - 128) * 64 + (d - 128) in
      if 240 \<le> a \<and> a < 248 \<and> continuation b \<and> continuation c \<and> continuation d
         \<and> 65536 \<le> v \<and> v < 1114112
      then Some v else None)"
| "utf8_code_point bs = None"

definition utf16_encode :: "nat \<Rightarrow> jsstring" where
  "utf16_encode v =
     (if v < 65536 then [v]
      else [55296 + (v - 65536) div 1024, 56320 + (v - 65536) mod 1024])"

fun decodeURIComponent :: "jsstring \<Rightarrow> js_error + jsstring" where
  "decodeURIComponent [] = Inr []"
| "decodeURIComponent (c # cs) =
     (if c \<noteq> 37 then map_sum id ((#) c) (decodeURIComponent cs)
      else (case pct_byte (c # cs) of
              None \<Rightarrow> Inl URIError
            | Some b \<Rightarrow>
                if b < 128 then map_sum id ((#) b) (decodeURIComponent (drop 2 cs))
                else if leading_ones b = 1 \<or> leading_ones b > 4 then Inl URIError
                else (case pct_bytes (leading_ones b - 1) (drop 2 cs) of
                        None \<Rightarrow> Inl URIError
                      | Some bs \<Rightarrow>
                          (case utf8_code_point (b # bs) of
                             None \<Rightarrow> Inl URIError
                           | Some v \<Rightarrow>
                               map_sum id ((@) (utf16_encode v))
                                 (decodeURIComponent (drop (2 + 3 * (leading_ones b - 1)) cs))))))"

subsection \<open>\<^verbatim>\<open>JSON.parse\<close>\<close>

datatype token =
    TLBrace | TRBrace | TLBracket | TRBracket | TColon | TComma
  | TString jsstring | TNumber int int | TTrue | TFalse | TNull

definition is_digit :: "nat \<Rightarrow> bool" where
  "is_digit c = (48 \<le> c \<and> c \<le> 57)"

definition is_number_char :: "nat \<Rightarrow> bool" where
  "is_number_char c = (is_digit c \<or> c \<in> {43, 45, 46, 69, 101})"

definition digits_val :: "jsstring \<Rightarrow> nat" where
  "digits_val ds = foldl (\<lambda>a d. 10 * a + (d - 48)) 0 ds"

text \<open>
  A JSON number: an optional minus sign, an integer part without a leading zero, an
  optional fraction and an optional exponent. The result is the pair \<open>(m, e)\<close> of
  \<open>JNum m e\<close>.
\<close>

definition parse_number :: "jsstring \<Rightarrow> (int \<times> int) option" where
  "parse_number s =
     (let neg = (s \<noteq> [] \<and> hd s = 45);
          s1 = (if neg then tl s else s);
          ip = takeWhile is_digit s1;
          s2 = dropWhile is_digit s1;
          has_fp = (s2 \<noteq> [] \<and> hd s2 = 46);
          fp = (if has_fp then takeWhile is_digit (tl s2) else []);
          s3 = (if has_fp then dropWhile is_digit (tl s2) else s2);
          has_ep = (s3 \<noteq> [] \<and> (hd s3 = 101 \<or> hd s3 = 69));
          s4 = (if has_ep then tl s3 else s3);
          eneg = (has_ep \<and> s4 \<noteq> [] \<and> hd s4 = 45);
          s5 = (if has_ep \<and> s4 \<noteq> [] \<and> (hd s4 = 45 \<or> hd s4 = 43) then tl s4 else s4);
          ep = (if has_ep then takeWhile is_digit s5 else []);
          s6 = (if has_ep then dropWhile is_digit s5 else s5)
      in if ip \<noteq> [] \<and> (hd ip \<noteq> 48 \<or> length ip = 1) \<and> (if has_fp then fp \<noteq> [] else True)
            \<and> (if has_ep then ep \<noteq> [] else True) \<and> s6 = []
         then Some ((if neg then - 1 else 1) * int (digits_val (ip @ fp)),
                    (if eneg then - 1 else 1) * int (digits_val ep) - int (length fp))
         else None)"

definition hex4 :: "jsstring \<Rightarrow> nat option" where
  "hex4 ds =
     (case map hex_digit ds of
        [Some a, Some b, Some c, Some d] \<Rightarrow> Some (a * 4096 + b * 256 + c * 16 + d)
      | _ \<Rightarrow> None)"

definition simple_escape :: "nat \<Rightarrow> nat option" where
  "simple_escape e =
     (if e = 34 \<or> e = 92 \<or> e = 47 then Some e
      else if e = 98 then Some 8
      else if e = 102 then Some 12
      else if e = 110 then Some 10
      else if e = 114 then Some 13
      else if e = 116 then Some 9
      else None)"

text \<open>
  The body of a string literal, read from just after its opening quote: the string it
  denotes and the number of code units read, the closing quote included.
\<close>

fun lex_string :: "jsstring \<Rightarrow> (jsstring \<times> nat) option" where
  "lex_string [] = None"
| "lex_string (c # cs) =
     (if c = 34 then Some ([], 1)
      else if c < 32 then None
      else if c = 92 then
        (case cs of
           [] \<Rightarrow> None
         | e # es \<Rightarrow>
             if e = 117 then
               (case hex4 (take 4 es) of
                  None \<Rightarrow> None
                | Some u \<Rightarrow> map_option (\<lambda>(s, n). (u # s, n + 6)) (lex_string (drop 4 es)))
             else
               (case simple_escape e of
                  None \<Rightarrow> None
                | Some u \<Rightarrow> map_option (\<lambda>(s, n). (u # s, n + 2)) (lex_string es)))
      else map_option (\<lambda>(s, n). (c # s, n + 1)) (lex_string cs))"

fun tokens :: "jsstring \<Rightarrow> token list option" where
  "tokens [] = Some []"
| "tokens (c # cs) =
     (if c \<in> {9, 10, 13, 32} then tokens cs
      else if c = 123 then map_option ((#) TLBrace) (tokens cs)
      else if c = 125 then map_option ((#) TRBrace) (tokens cs)
      else if c = 91 then map_option ((#) TLBracket) (tokens cs)
      else if c = 93 then map_option ((#) TRBracket) (tokens cs)
      else if c = 58 then map_option ((#) TColon) (tokens cs)
      else if c = 44 then map_option ((#) TComma) (tokens cs)
      else if c = 34 then
        (case lex_string cs of
           None \<Rightarrow> None
         | Some (s, n) \<Rightarrow> map_option ((#) (TString s)) (tokens (drop n cs)))
      else if c = 45 \<or> is_digit c then
        (case parse_number (c # takeWhile is_number_char cs) of
           None \<Rightarrow> None
         | Some (m, e) \<Rightarrow>
             map_option ((#) (TNumber m e))
               (tokens (drop (length (takeWhile is_number_char cs)) cs)))
      else if take 4 (c # cs) = js ''true'' then map_option ((#) TTrue) (tokens (drop 3 cs))
      else if take 5 (c # cs) = js ''false'' then map_option ((#) TFalse) (tokens (drop 4 cs))
      else if take 4 (c # cs) = js ''null'' then map_option ((#) TNull) (tokens (drop 3 cs))
      else None)"

text \<open>
  The parser is a pushdown automaton over the tokens: a frame for every array or object
  that is still open, and a mode that says what may come next. A member that is read
  later is put in front of the earlier ones, so that of two members with one name the
  later one is the object's property, as in \<^verbatim>\<open>JSON.parse\<close>.
\<close>

datatype frame =
    InArray "jsval list"
  | InObject "(jsstring \<times> jsval) list"
  | InMember "(jsstring \<times> jsval) list" jsstring

datatype pmode = WantValue | WantValueOrClose | WantKeyOrClose | WantKey | WantColon | Have jsval

definition start_value :: "token \<Rightarrow> frame list \<Rightarrow> (pmode \<times> frame list) option" where
  "start_value t st =
     (case t of
        TString s \<Rightarrow> Some (Have (JStr s), st)
      | TNumber m e \<Rightarrow> Some (Have (JNum m e), st)
      | TTrue \<Rightarrow> Some (Have (JBool True), st)
      | TFalse \<Rightarrow> Some (Have (JBool False), st)
      | TNull \<Rightarrow> Some (Have JNull, st)
      | TLBracket \<Rightarrow> Some (WantValueOrClose, InArray [] # st)
      | TLBrace \<Rightarrow> Some (WantKeyOrClose, InObject [] # st)
      | _ \<Rightarrow> None)"

definition start_member :: "token \<Rightarrow> frame list \<Rightarrow> (pmode \<times> frame list) option" where
  "start_member t st =
     (case t of
        TString k \<Rightarrow>
          (case st of InObject ms # st' \<Rightarrow> Some (WantColon, InMember ms k # st') | _ \<Rightarrow> None)
      | _ \<Rightarrow> None)"

definition after_value :: "jsval \<Rightarrow> token \<Rightarrow> frame list \<Rightarrow> (pmode \<times> frame list) option" where
  "after_value v t st =
     (case st of
        InArray vs # st' \<Rightarrow>
          (if t = TComma then Some (WantValue, InArray (vs @ [v]) # st')
           else if t = TRBracket then Some (Have (JArr (vs @ [v])), st')
           else None)
      | InMember ms k # st' \<Rightarrow>
          (if t = TComma then Some (WantKey, InObject ((k, v) # ms) # st')
           else if t = TRBrace then Some (Have (JObj ((k, v) # ms)), st')
           else None)
      | _ \<Rightarrow> None)"

definition pstep :: "pmode \<Rightarrow> frame list \<Rightarrow> token \<Rightarrow> (pmode \<times> frame list) option" where
  "pstep m st t =
     (case m of
        WantValue \<Rightarrow> start_value t st
      | WantValueOrClose \<Rightarrow>
          (if t = TRBracket then
             (case st of InArray vs # st' \<Rightarrow> Some (Have (JArr vs), st') | _ \<Rightarrow> None)
           else start_value t st)
      | WantKeyOrClose \<Rightarrow>
          (if t = TRBrace then
             (case st of InObject ms # st' \<Rightarrow> Some (Have (JObj ms), st') | _ \<Rightarrow> None)
           else start_member t st)
      | WantKey \<Rightarrow> start_member t st
      | WantColon \<Rightarrow> (if t = TColon then Some (WantValue, st) else None)
      | Have v \<Rightarrow> after_value v t st)"

fun parse_tokens :: "pmode \<Rightarrow> frame list \<Rightarrow> token list \<Rightarrow> jsval option" where
  "parse_tokens m st [] = (case m of Have v \<Rightarrow> (if st = [] then Some v else None) | _ \<Rightarrow> None)"
| "parse_tokens m st (t # ts) =
     (case pstep m st t of
        None \<Rightarrow> None
      | Some (m', st') \<Rightarrow> parse_tokens m' st' ts)"

definition JSON_parse :: "jsstring \<Rightarrow> js_error + jsval" where
  "JSON_parse text =
     (case tokens text of
        None \<Rightarrow> Inl SyntaxError
      | Some ts \<Rightarrow>
          (case parse_tokens WantValue [] ts of
             None \<Rightarrow> Inl SyntaxError
           | Some v \<Rightarrow> Inr v))"

section \<open>The token decoder (\<^verbatim>\<open>decodeJwt\<close>, AuthProvider.tsx)\<close>

text \<open>
  The statements inside \<^verbatim>\<open>try\<close>. The destructuring \<^verbatim>\<open>[, payload]\<close> takes the second
  segment (\<^verbatim>\<open>undefined\<close> when there is none), and \<^verbatim>\<open>!payload\<close> holds when it is missing or
  empty.
\<close>

definition decodeJwt_try :: "jsstring \<Rightarrow> js_error + jsval" where
  "decodeJwt_try token =
     (case js_split 46 token of
        _ # payload # _ \<Rightarrow>
          (if payload = [] then Inr JNull
           else
             (let normalized = replace_all 95 47 (replace_all 45 43 payload) in
              case atob normalized of
                Inl e \<Rightarrow> Inl e
              | Inr decoded \<Rightarrow>
                  (case decodeURIComponent (escape decoded) of
                     Inl e \<Rightarrow> Inl e
                   | Inr text \<Rightarrow> JSON_parse text)))
      | _ \<Rightarrow> Inr JNull)"

text \<open>\<^verbatim>\<open>try { ... } catch { return null; }\<close>\<close>

definition decodeJwt :: "jsstring \<Rightarrow> js_error + jsval" where
  "decodeJwt token = (case decodeJwt_try token of Inl e \<Rightarrow> Inr JNull | Inr v \<Rightarrow> Inr v)"

section \<open>Roles (constants/roles.ts)\<close>

definition isEmployeeRole :: "jsval \<Rightarrow> bool" where
  "isEmployeeRole v =
     (v = JStr (js ''ADMIN'') \<or> v = JStr (js ''DISTRIBUTER'')
      \<or> v = JStr (js ''PUBLISHER'') \<or> v = JStr (js ''DELIVERER''))"

definition ROLE_DEFAULT_ROUTE :: "(jsstring \<times> jsstring) list" where
  "ROLE_DEFAULT_ROUTE =
     [(js ''ADMIN'', js ''/''),
      (js ''DISTRIBUTER'', js ''/distribution''),
      (js ''PUBLISHER'', js ''/posts''),
      (js ''DELIVERER'', js ''/deliver'')]"

text \<open>\<^verbatim>\<open>if (!role) return '/'; return ROLE_DEFAULT_ROUTE[role] ?? '/';\<close>\<close>

definition getDefaultRouteForRole :: "jsstring option \<Rightarrow> jsstring" where
  "getDefaultRouteForRole r =
     (if \<not> present r then js ''/''
      else (case map_of ROLE_DEFAULT_ROUTE (the r) of Some route \<Rightarrow> route | None \<Rightarrow> js ''/''))"

text \<open>\<^verbatim>\<open>isEmployeeRole(v) ? v : null\<close>, the narrowing of an unknown value to a role.\<close>

definition as_role :: "jsval \<Rightarrow> jsstring option" where
  "as_role v = (if isEmployeeRole v then (case v of JStr s \<Rightarrow> Some s | _ \<Rightarrow> None) else None)"

section \<open>The session and the HTTP client's credential\<close>

text \<open>
  All the mutable state the subsystem has: the default \<^verbatim>\<open>Authorization\<close> header of the
  HTTP client (\<^verbatim>\<open>api.defaults.headers.common.Authorization\<close>, httpClient.ts), the durable
  storage (\<^verbatim>\<open>localStorage\<close>) and the five state variables of \<^verbatim>\<open>useAuthProviderState\<close>.
  The role is held as the string it is at run time, so that its membership in the enum
  is a property to prove and not a consequence of the type.
\<close>

record world =
  Authorization :: "jsstring option"
  localStorage :: "jsstring \<Rightarrow> jsstring option"
  isAuthenticated :: bool
  initializing :: bool
  institutionId :: "jsstring option"
  role :: "jsstring option"
  employeeId :: "jsstring option"

definition setItem :: "jsstring \<Rightarrow> jsstring \<Rightarrow> world \<Rightarrow> world" where
  "setItem k v w = w\<lparr>localStorage := (localStorage w)(k \<mapsto> v)\<rparr>"

definition removeItem :: "jsstring \<Rightarrow> world \<Rightarrow> world" where
  "removeItem k w = w\<lparr>localStorage := (localStorage w)(k := None)\<rparr>"

subsection \<open>\<^verbatim>\<open>setAuthToken\<close> (httpClient.ts)\<close>

definition setAuthToken :: "jsstring option \<Rightarrow> world \<Rightarrow> world" where
  "setAuthToken token w =
     (if present token then w\<lparr>Authorization := Some (js ''Bearer '' @ the token)\<rparr>
      else w\<lparr>Authorization := None\<rparr>)"

subsection \<open>The three persist operations (AuthProvider.tsx)\<close>

definition persistInstitutionId :: "jsstring option \<Rightarrow> world \<Rightarrow> world" where
  "persistInstitutionId v w =
     (let w1 = w\<lparr>institutionId := v\<rparr> in
      if present v then setItem (js ''institutionId'') (the v) w1
      else removeItem (js ''institutionId'') w1)"

definition persistRole :: "jsstring option \<Rightarrow> world \<Rightarrow> world" where
  "persistRole v w =
     (let w1 = w\<lparr>role := v\<rparr> in
      if present v then setItem (js ''employeeRole'') (the v) w1
      else removeItem (js ''employeeRole'') w1)"

definition persistEmployeeId :: "jsstring option \<Rightarrow> world \<Rightarrow> world" where
  "persistEmployeeId v w =
     (let w1 = w\<lparr>employeeId := v\<rparr> in
      if present v then setItem (js ''employeeId'') (the v) w1
      else removeItem (js ''employeeId'') w1)"

subsection \<open>The initial state\<close>

text \<open>
  The \<^verbatim>\<open>useState\<close> initialisers read the storage the page was loaded with; the stored
  role is kept only when \<^verbatim>\<open>stored && isEmployeeRole(stored)\<close>. The HTTP client is created
  without an \<^verbatim>\<open>Authorization\<close> header.
\<close>

definition initial_world :: "(jsstring \<Rightarrow> jsstring option) \<Rightarrow> world" where
  "initial_world storage =
     \<lparr>Authorization = None,
      localStorage = storage,
      isAuthenticated = False,
      initializing = True,
      institutionId = storage (js ''institutionId''),
      role = (let stored = storage (js ''employeeRole'') in
              if present stored \<and> isEmployeeRole (JStr (the stored)) then stored else None),
      employeeId = storage (js ''employeeId'')\<rparr>"

section \<open>Response application (\<^verbatim>\<open>applyAuthResponse\<close>, AuthProvider.tsx)\<close>

text \<open>
  The three local variables of \<^verbatim>\<open>applyAuthResponse\<close>; the function returns them as
  \<^verbatim>\<open>{ role: nextRole, institutionId: nextInstitutionId, employeeId: nextEmployeeId }\<close>.
\<close>

record next_fields =
  nextRole :: "jsstring option"
  nextInstitutionId :: "jsstring option"
  nextEmployeeId :: "jsstring option"

text \<open>Lines 103 to 121: what the decoded claims supply.\<close>

definition claims_institutionId :: "jsval \<Rightarrow> world \<times> next_fields \<Rightarrow> world \<times> next_fields" where
  "claims_institutionId claims = (\<lambda>(w, n).
     let derivedInstitutionId = nonempty_string (member claims (js ''institutionId'')) in
     if present derivedInstitutionId
     then (persistInstitutionId derivedInstitutionId w, n\<lparr>nextInstitutionId := derivedInstitutionId\<rparr>)
     else (w, n))"

definition claims_role :: "jsval \<Rightarrow> world \<times> next_fields \<Rightarrow> world \<times> next_fields" where
  "claims_role claims = (\<lambda>(w, n).
     let derivedRole = as_role (member claims (js ''role'')) in
     if present derivedRole
     then (persistRole derivedRole w, n\<lparr>nextRole := derivedRole\<rparr>)
     else (w, n))"

definition claims_employeeId :: "jsval \<Rightarrow> world \<times> next_fields \<Rightarrow> world \<times> next_fields" where
  "claims_employeeId claims = (\<lambda>(w, n).
     let derivedEmployeeId = nonempty_string (member claims (js ''sub'')) in
     if present derivedEmployeeId
     then (persistEmployeeId derivedEmployeeId w, n\<lparr>nextEmployeeId := derivedEmployeeId\<rparr>)
     else (w, n))"

text \<open>
  Lines 98 to 123: the token. An exception of \<^verbatim>\<open>decodeJwt\<close> would leave the function
  after \<^verbatim>\<open>setAuthToken\<close> has run.
\<close>

definition token_step :: "jsval \<Rightarrow> world \<times> next_fields \<Rightarrow> world \<times> (js_error + next_fields)" where
  "token_step payload = (\<lambda>(w, n).
     let maybeToken = member payload (js ''accessToken'') in
     if js_typeof maybeToken = ''string'' \<and> truthy maybeToken then
       (case maybeToken of
          JStr t \<Rightarrow>
            (let w1 = setAuthToken (Some t) w in
             case decodeJwt t of
               Inl e \<Rightarrow> (w1, Inl e)
             | Inr claims \<Rightarrow>
                 if truthy claims then
                   (case claims_employeeId claims (claims_role claims (claims_institutionId claims (w1, n))) of
                      (w2, n2) \<Rightarrow> (w2, Inr n2))
                 else (w1, Inr n))
        | _ \<Rightarrow> (w, Inr n))
     else (w, Inr n))"

text \<open>Lines 125 to 135: the institution id read from the response itself.\<close>

definition maybeInstitutionId :: "jsval \<Rightarrow> jsval" where
  "maybeInstitutionId payload =
     js_or (js_or (member payload (js ''institutionId''))
                  (opt_member (member payload (js ''institution'')) (js ''id'')))
           (opt_member (member payload (js ''user'')) (js ''institutionId''))"

definition institution_fallback :: "jsval \<Rightarrow> world \<times> next_fields \<Rightarrow> world \<times> next_fields" where
  "institution_fallback payload = (\<lambda>(w, n).
     if js_typeof (maybeInstitutionId payload) = ''string'' \<and> truthy (maybeInstitutionId payload)
     then
       (let w1 = persistInstitutionId (nonempty_string (maybeInstitutionId payload)) w in
        if \<not> present (nextInstitutionId n)
        then (w1, n\<lparr>nextInstitutionId := nonempty_string (maybeInstitutionId payload)\<rparr>)
        else (w1, n))
     else (w, n))"

text \<open>Lines 137 to 142: the role read from the response itself.\<close>

definition maybeRole :: "jsval \<Rightarrow> jsval" where
  "maybeRole payload =
     js_or (member payload (js ''role'')) (opt_member (member payload (js ''user'')) (js ''role''))"

definition role_fallback :: "jsval \<Rightarrow> world \<times> next_fields \<Rightarrow> world \<times> next_fields" where
  "role_fallback payload = (\<lambda>(w, n).
     if isEmployeeRole (maybeRole payload) \<and> \<not> present (nextRole n)
     then (persistRole (as_role (maybeRole payload)) w, n\<lparr>nextRole := as_role (maybeRole payload)\<rparr>)
     else (w, n))"

text \<open>Lines 144 to 150: the employee id read from the response itself.\<close>

definition maybeEmployeeId :: "jsval \<Rightarrow> jsval" where
  "maybeEmployeeId payload =
     js_or (member payload (js ''id'')) (opt_member (member payload (js ''user'')) (js ''id''))"

definition employee_fallback :: "jsval \<Rightarrow> world \<times> next_fields \<Rightarrow> world \<times> next_fields" where
  "employee_fallback payload = (\<lambda>(w, n).
     if js_typeof (maybeEmployeeId payload) = ''string'' \<and> truthy (maybeEmployeeId payload)
        \<and> \<not> present (nextEmployeeId n)
     then (persistEmployeeId (nonempty_string (maybeEmployeeId payload)) w,
           n\<lparr>nextEmployeeId := nonempty_string (maybeEmployeeId payload)\<rparr>)
     else (w, n))"

definition applyAuthResponse :: "jsval \<Rightarrow> world \<Rightarrow> world \<times> (js_error + next_fields)" where
  "applyAuthResponse response w =
     (let n0 = \<lparr>nextRole = None, nextInstitutionId = None, nextEmployeeId = None\<rparr> in
      if \<not> truthy response \<or> js_typeof response \<noteq> ''object'' then (w, Inr n0)
      else
        (case token_step response (w, n0) of
           (w1, Inl e) \<Rightarrow> (w1, Inl e)
         | (w1, Inr n1) \<Rightarrow>
             (case employee_fallback response
                     (role_fallback response (institution_fallback response (w1, n1))) of
                (w2, n2) \<Rightarrow> (w2, Inr n2))))"

section \<open>The HTTP client's response interceptor (httpClient.ts) and \<^verbatim>\<open>BaseService.post\<close>\<close>

text \<open>
  What the transport hands to the interceptors: a response the client accepts, with its
  body; an error with a response, with its status and body; or an error without one.
\<close>

datatype http_result = Fulfilled jsval | ErrorResponse nat jsval | NoResponse

definition unexpected_error_message :: jsstring where
  "unexpected_error_message =
     [1581, 1583, 1579, 32, 1582, 1591, 1571, 32, 1594, 1610, 1585, 32,
      1605, 1578, 1608, 1602, 1593]"

definition unreachable_server_message :: jsstring where
  "unreachable_server_message =
     [1578, 1593, 1584, 1585, 32, 1575, 1604, 1575, 1578, 1589, 1575, 1604, 32,
      1576, 1575, 1604, 1582, 1575, 1583, 1605]"

text \<open>
  A request through the client: the fulfilled branch returns the body
  (\<^verbatim>\<open>const { data } = await api.post(...); return data;\<close>), the other two are the error
  handler of \<^verbatim>\<open>api.interceptors.response\<close>.
\<close>

definition request :: "http_result \<Rightarrow> world \<Rightarrow> world \<times> (js_error + jsval)" where
  "request r w =
     (case r of
        Fulfilled body \<Rightarrow> (w, Inr body)
      | ErrorResponse status body \<Rightarrow>
          (let message =
                 js_or (js_or (js_or (opt_member body (js ''message''))
                                     (opt_member body (js ''error'')))
                              (opt_member body (js ''title'')))
                       (JStr unexpected_error_message);
               w1 = (if status = 401 then setAuthToken None w else w)
           in (w1, Inl (ApiError (Some status) message body)))
      | NoResponse \<Rightarrow> (w, Inl (ApiError None (JStr unreachable_server_message) JUndefined)))"

section \<open>The operations of the Auth Context (AuthProvider.tsx)\<close>

text \<open>
  The five statements that \<^verbatim>\<open>login\<close> and \<^verbatim>\<open>refresh\<close> run in \<^verbatim>\<open>catch\<close> and \<^verbatim>\<open>logout\<close> runs
  in \<^verbatim>\<open>finally\<close>, in the order of the source.
\<close>

definition local_cleanup :: "world \<Rightarrow> world" where
  "local_cleanup w =
     (let w1 = setAuthToken None w;
          w2 = w1\<lparr>isAuthenticated := False\<rparr>;
          w3 = persistInstitutionId None w2;
          w4 = persistRole None w3
      in persistEmployeeId None w4)"

text \<open>
  \<^verbatim>\<open>login\<close> and \<^verbatim>\<open>refresh\<close> differ only in the endpoint they call; the argument is what
  that call comes back with.
\<close>

definition login :: "http_result \<Rightarrow> world \<Rightarrow> world \<times> (js_error + unit)" where
  "login r w =
     (case request r w of
        (w1, Inl e) \<Rightarrow> (local_cleanup w1, Inl e)
      | (w1, Inr response) \<Rightarrow>
          (case applyAuthResponse response w1 of
             (w2, Inl e) \<Rightarrow> (local_cleanup w2, Inl e)
           | (w2, Inr n) \<Rightarrow> (w2\<lparr>isAuthenticated := True\<rparr>, Inr ())))"

definition refresh :: "http_result \<Rightarrow> world \<Rightarrow> world \<times> (js_error + unit)" where
  "refresh r w =
     (case request r w of
        (w1, Inl e) \<Rightarrow> (local_cleanup w1, Inl e)
      | (w1, Inr response) \<Rightarrow>
          (case applyAuthResponse response w1 of
             (w2, Inl e) \<Rightarrow> (local_cleanup w2, Inl e)
           | (w2, Inr n) \<Rightarrow> (w2\<lparr>isAuthenticated := True\<rparr>, Inr ())))"

text \<open>\<^verbatim>\<open>try { await logout call } finally { cleanup }\<close>: the error, if any, is rethrown.\<close>

definition logout :: "http_result \<Rightarrow> world \<Rightarrow> world \<times> (js_error + unit)" where
  "logout r w =
     (case request r w of
        (w1, Inl e) \<Rightarrow> (local_cleanup w1, Inl e)
      | (w1, Inr body) \<Rightarrow> (local_cleanup w1, Inr ()))"

text \<open>The effect run once at start: \<^verbatim>\<open>refresh\<close>, its error swallowed, then the flag.\<close>

definition boot :: "http_result \<Rightarrow> world \<Rightarrow> world" where
  "boot r w = (fst (refresh r w))\<lparr>initializing := False\<rparr>"

text \<open>
  What can happen to the session: the boot effect, the three operations, and any other
  request of the application through the HTTP client. Each changes the state in one
  uninterrupted run of code once its network call has come back.
\<close>

datatype event =
    Boot http_result
  | Login http_result
  | Refresh http_result
  | Logout http_result
  | Request http_result

fun step :: "event \<Rightarrow> world \<Rightarrow> world" where
  "step (Boot r) w = boot r w"
| "step (Login r) w = fst (login r w)"
| "step (Refresh r) w = fst (refresh r w)"
| "step (Logout r) w = fst (logout r w)"
| "step (Request r) w = fst (request r w)"

inductive reachable :: "(jsstring \<Rightarrow> jsstring option) \<Rightarrow> world \<Rightarrow> bool"
  for storage :: "jsstring \<Rightarrow> jsstring option" where
  start: "reachable storage (initial_world storage)"
| after: "reachable storage w \<Longrightarrow> reachable storage (step ev w)"

section \<open>The route guard (\<^verbatim>\<open>ProtectedRoute\<close>)\<close>

datatype element = LoadingPlaceholder | Navigate jsstring | Outlet

definition ProtectedRoute :: "jsstring list option \<Rightarrow> world \<Rightarrow> element" where
  "ProtectedRoute allowedRoles w =
     (if initializing w then LoadingPlaceholder
      else if \<not> isAuthenticated w then Navigate (js ''/login'')
      else if (case allowedRoles of None \<Rightarrow> False | Some rs \<Rightarrow> length rs > 0)
              \<and> (\<not> present (role w) \<or> the (role w) \<notin> set (the allowedRoles))
           then Navigate (if present (role w) then getDefaultRouteForRole (role w)
                          else js ''/unauthorized'')
      else Outlet)"

section \<open>Notions used to state the properties\<close>

text \<open>The four values of the role enum, and a session role that is one of them or absent.\<close>

definition employee_roles :: "jsstring set" where
  "employee_roles = {js ''ADMIN'', js ''DISTRIBUTER'', js ''PUBLISHER'', js ''DELIVERER''}"

definition valid_role :: "jsstring option \<Rightarrow> bool" where
  "valid_role r = (case r of None \<Rightarrow> True | Some s \<Rightarrow> s \<in> employee_roles)"

text \<open>
  The route guard as the specification words it: five outcomes, chosen by four rules in
  order, and what each outcome puts on the screen. \<open>landing_route\<close> is the
  specification's table of default landing routes.
\<close>

datatype guard_outcome =
  Loading | RedirectLogin | RedirectRoleDefault | RedirectUnauthorized | Render

definition guard_rule ::
  "bool \<Rightarrow> bool \<Rightarrow> jsstring option \<Rightarrow> jsstring list option \<Rightarrow> guard_outcome" where
  "guard_rule init auth r allowed =
     (if init then Loading
      else if \<not> auth then RedirectLogin
      else if allowed \<noteq> None \<and> the allowed \<noteq> [] \<and> (r = None \<or> the r \<notin> set (the allowed))
           then (if r \<noteq> None then RedirectRoleDefault else RedirectUnauthorized)
      else Render)"

definition landing_route :: "jsstring \<Rightarrow> jsstring" where
  "landing_route r =
     (if r = js ''ADMIN'' then js ''/''
      else if r = js ''DISTRIBUTER'' then js ''/distribution''
      else if r = js ''PUBLISHER'' then js ''/posts''
      else js ''/deliver'')"

fun shown :: "jsstring option \<Rightarrow> guard_outcome \<Rightarrow> element" where
  "shown r Loading = LoadingPlaceholder"
| "shown r RedirectLogin = Navigate (js ''/login'')"
| "shown r RedirectRoleDefault = Navigate (landing_route (the r))"
| "shown r RedirectUnauthorized = Navigate (js ''/unauthorized'')"
| "shown r Render = Outlet"

text \<open>
  The claims that the token of a response decodes to: \<^verbatim>\<open>null\<close> when the response has no
  non-empty string under \<^verbatim>\<open>accessToken\<close>.
\<close>

definition token_claims :: "jsval \<Rightarrow> jsval" where
  "token_claims response =
     (case nonempty_string (member response (js ''accessToken'')) of
        None \<Rightarrow> JNull
      | Some t \<Rightarrow> (case decodeJwt t of Inl e \<Rightarrow> JNull | Inr claims \<Rightarrow> claims))"

text \<open>The three keys of the durable storage that hold session fields.\<close>

definition session_keys :: "jsstring set" where
  "session_keys = {js ''institutionId'', js ''employeeRole'', js ''employeeId''}"

text \<open>
  For each session field, the three places that hold it while a response is applied: the
  state variable, the stored copy and the local variable that is returned. The rest of
  the state is the header and the two flags.
\<close>

definition role_view :: "world \<times> next_fields \<Rightarrow> jsstring option \<times> jsstring option \<times> jsstring option" where
  "role_view x = (role (fst x), localStorage (fst x) (js ''employeeRole''), nextRole (snd x))"

definition institution_view :: "world \<times> next_fields \<Rightarrow> jsstring option \<times> jsstring option \<times> jsstring option" where
  "institution_view x =
     (institutionId (fst x), localStorage (fst x) (js ''institutionId''), nextInstitutionId (snd x))"

definition employee_view :: "world \<times> next_fields \<Rightarrow> jsstring option \<times> jsstring option \<times> jsstring option" where
  "employee_view x =
     (employeeId (fst x), localStorage (fst x) (js ''employeeId''), nextEmployeeId (snd x))"

definition rest_view :: "world \<times> next_fields \<Rightarrow> jsstring option \<times> bool \<times> bool" where
  "rest_view x = (Authorization (fst x), isAuthenticated (fst x), initializing (fst x))"

text \<open>
  \<open>applyAuthResponse\<close> as one composition of its six steps, the token's claims first and
  the fallbacks after them; \<open>applyAuthResponse_applied\<close> below shows that this is what the
  function computes and that it never throws.
\<close>

definition applied :: "jsval \<Rightarrow> world \<Rightarrow> world \<times> next_fields" where
  "applied R w =
     (if \<not> truthy R \<or> js_typeof R \<noteq> ''object''
      then (w, \<lparr>nextRole = None, nextInstitutionId = None, nextEmployeeId = None\<rparr>)
      else employee_fallback R (role_fallback R (institution_fallback R
             (claims_employeeId (token_claims R) (claims_role (token_claims R)
               (claims_institutionId (token_claims R)
                 ((case nonempty_string (member R (js ''accessToken'')) of
                     None \<Rightarrow> w | Some t \<Rightarrow> setAuthToken (Some t) w),
                  \<lparr>nextRole = None, nextInstitutionId = None, nextEmployeeId = None\<rparr>)))))))"

text \<open>
  The sources of the institution id fallback in their declared order; the first truthy
  value of a list, which is what a chain of \<^verbatim>\<open>||\<close> selects among its operands up to
  truthiness; and the first non-empty string of a list.
\<close>

definition institution_sources :: "jsval \<Rightarrow> jsval list" where
  "institution_sources R =
     [member R (js ''institutionId''),
      opt_member (member R (js ''institution'')) (js ''id''),
      opt_member (member R (js ''user'')) (js ''institutionId'')]"

fun first_truthy :: "jsval list \<Rightarrow> jsval" where
  "first_truthy [] = JUndefined"
| "first_truthy (v # vs) = (if truthy v then v else first_truthy vs)"

fun first_nonempty_string :: "jsval list \<Rightarrow> jsstring option" where
  "first_nonempty_string [] = None"
| "first_nonempty_string (v # vs) =
     (case nonempty_string v of Some s \<Rightarrow> Some s | None \<Rightarrow> first_nonempty_string vs)"

text \<open>
  The state the specification calls UNAUTHENTICATED, as reached from a state \<open>w\<close>: the
  credential absent, the flag false, the three session fields and their stored copies
  cleared, everything else as in \<open>w\<close>.
\<close>

definition unauthenticated_from :: "world \<Rightarrow> world" where
  "unauthenticated_from w =
     w\<lparr>Authorization := None, isAuthenticated := False, institutionId := None, role := None,
       employeeId := None,
       localStorage := (localStorage w)(js ''institutionId'' := None, js ''employeeRole'' := None,
                                        js ''employeeId'' := None)\<rparr>"

section \<open>Example inputs\<close>

text \<open>
  Scenario A of the specification: a login response whose only field is a token with the
  payload \<^verbatim>\<open>{"sub":"emp-1","role":"ADMIN","institutionId":"inst-9"}\<close>.
\<close>

definition scenarioA :: jsval where
  "scenarioA =
     JObj [(js ''accessToken'',
            JStr (js ''h.eyJzdWIiOiJlbXAtMSIsInJvbGUiOiJBRE1JTiIsImluc3RpdHV0aW9uSWQiOiJpbnN0LTkifQ.s''))]"

text \<open>
  Scenario B of the specification:
  \<^verbatim>\<open>{id:"emp-2", role:"PUBLISHER", institution:{id:"inst-3"}}\<close>, with no token.
\<close>

definition scenarioB :: jsval where
  "scenarioB =
     JObj [(js ''id'', JStr (js ''emp-2'')),
           (js ''role'', JStr (js ''PUBLISHER'')),
           (js ''institution'', JObj [(js ''id'', JStr (js ''inst-3''))])]"

text \<open>
  The response of property P2: a token with the payload \<^verbatim>\<open>{"role":"PUBLISHER"}\<close> beside a
  top-level \<^verbatim>\<open>role: "ADMIN"\<close>.
\<close>

definition publisher_token :: jsstring where
  "publisher_token = js ''h.eyJyb2xlIjoiUFVCTElTSEVSIn0.s''"

definition precedence_response :: jsval where
  "precedence_response =
     JObj [(js ''accessToken'', JStr publisher_token), (js ''role'', JStr (js ''ADMIN''))]"



text \<open>
  A response whose token carries the institution id \<^verbatim>\<open>inst-9\<close> (payload
  \<^verbatim>\<open>{"institutionId":"inst-9"}\<close>) while its own field says \<^verbatim>\<open>inst-3\<close>; a response with an
  employee id and nothing else; and a response whose top-level institution id is the
  number 7 while its nested institution object has the id \<^verbatim>\<open>inst-3\<close>.
\<close>

definition two_institutions_response :: jsval where
  "two_institutions_response =
     JObj [(js ''accessToken'', JStr (js ''h.eyJpbnN0aXR1dGlvbklkIjoiaW5zdC05In0.s'')),
           (js ''institutionId'', JStr (js ''inst-3''))]"

definition employee_only_response :: jsval where
  "employee_only_response = JObj [(js ''id'', JStr (js ''emp-2''))]"

definition numeric_institution_response :: jsval where
  "numeric_institution_response =
     JObj [(js ''institutionId'', JNum 7 0),
           (js ''institution'', JObj [(js ''id'', JStr (js ''inst-3''))])]"

text \<open>
  A page loaded with nothing stored; and the session of a user who then logged in with a
  response that carries the opaque token \<^verbatim>\<open>earlier\<close> and the role \<^verbatim>\<open>ADMIN\<close>, after a boot
  whose refresh found no server.
\<close>

definition fresh_world :: world where
  "fresh_world = initial_world Map.empty"

definition earlier_login :: jsval where
  "earlier_login =
     JObj [(js ''accessToken'', JStr (js ''earlier'')), (js ''role'', JStr (js ''ADMIN''))]"

definition earlier_session :: world where
  "earlier_session = step (Login (Fulfilled earlier_login)) (step (Boot NoResponse) fresh_world)"

section \<open>Basic facts\<close>

subsection \<open>String literals\<close>

lemma keys_distinct [simp]:
  "js ''institutionId'' \<noteq> js ''employeeRole''" "js ''employeeRole'' \<noteq> js ''institutionId''"
  "js ''institutionId'' \<noteq> js ''employeeId''" "js ''employeeId'' \<noteq> js ''institutionId''"
  "js ''employeeRole'' \<noteq> js ''employeeId''" "js ''employeeId'' \<noteq> js ''employeeRole''"
  by (simp_all add: js_def)

lemma role_names_distinct [simp]:
  "js ''ADMIN'' \<noteq> js ''DISTRIBUTER''" "js ''ADMIN'' \<noteq> js ''PUBLISHER''"
  "js ''ADMIN'' \<noteq> js ''DELIVERER''" "js ''DISTRIBUTER'' \<noteq> js ''ADMIN''"
  "js ''DISTRIBUTER'' \<noteq> js ''PUBLISHER''" "js ''DISTRIBUTER'' \<noteq> js ''DELIVERER''"
  "js ''PUBLISHER'' \<noteq> js ''ADMIN''" "js ''PUBLISHER'' \<noteq> js ''DISTRIBUTER''"
  "js ''PUBLISHER'' \<noteq> js ''DELIVERER''" "js ''DELIVERER'' \<noteq> js ''ADMIN''"
  "js ''DELIVERER'' \<noteq> js ''DISTRIBUTER''" "js ''DELIVERER'' \<noteq> js ''PUBLISHER''"
  by (simp_all add: js_def)

lemma role_names_nonempty [simp]:
  "js ''ADMIN'' \<noteq> []" "js ''DISTRIBUTER'' \<noteq> []" "js ''PUBLISHER'' \<noteq> []"
  "js ''DELIVERER'' \<noteq> []"
  by (simp_all add: js_def)

lemma employee_roles_nonempty: "r \<in> employee_roles \<Longrightarrow> r \<noteq> []"
  by (auto simp: employee_roles_def js_def)

lemma route_names_distinct:
  "landing_route r \<noteq> js ''/login''" "landing_route r \<noteq> js ''/unauthorized''"
  "js ''/login'' \<noteq> js ''/unauthorized''"
  by (simp_all add: landing_route_def js_def)

subsection \<open>The route guard\<close>

lemma getDefaultRouteForRole_valid:
  "r \<in> employee_roles \<Longrightarrow> getDefaultRouteForRole (Some r) = landing_route r"
  by (auto simp: employee_roles_def getDefaultRouteForRole_def present_def
      ROLE_DEFAULT_ROUTE_def landing_route_def)

lemma shown_inj: "shown r a = shown r b \<Longrightarrow> a = b"
  by (cases a; cases b) (auto simp: route_names_distinct route_names_distinct [symmetric])

lemma ProtectedRoute_refines:
  assumes "valid_role (role w)"
  shows "ProtectedRoute allowedRoles w
         = shown (role w)
             (guard_rule (initializing w) (isAuthenticated w) (role w) allowedRoles)"
proof (cases "role w")
  case None
  then show ?thesis
    by (cases allowedRoles) (simp_all add: ProtectedRoute_def guard_rule_def present_def)
next
  case (Some r)
  with assms have r: "r \<in> employee_roles" by (simp add: valid_role_def)
  show ?thesis
    using Some employee_roles_nonempty [OF r] getDefaultRouteForRole_valid [OF r]
    by (cases allowedRoles) (simp_all add: ProtectedRoute_def guard_rule_def present_def)
qed

subsection \<open>Values, the credential and the persist operations\<close>

lemma setAuthToken_eq:
  "setAuthToken t w = w\<lparr>Authorization := (if present t then Some (js ''Bearer '' @ the t) else None)\<rparr>"
  by (simp add: setAuthToken_def)

lemma persistInstitutionId_eq:
  "persistInstitutionId v w =
     w\<lparr>institutionId := v,
       localStorage := (localStorage w)(js ''institutionId'' := (if present v then v else None))\<rparr>"
  by (cases v) (simp_all add: persistInstitutionId_def setItem_def removeItem_def present_def)

lemma persistRole_eq:
  "persistRole v w =
     w\<lparr>role := v,
       localStorage := (localStorage w)(js ''employeeRole'' := (if present v then v else None))\<rparr>"
  by (cases v) (simp_all add: persistRole_def setItem_def removeItem_def present_def)

lemma persistEmployeeId_eq:
  "persistEmployeeId v w =
     w\<lparr>employeeId := v,
       localStorage := (localStorage w)(js ''employeeId'' := (if present v then v else None))\<rparr>"
  by (cases v) (simp_all add: persistEmployeeId_def setItem_def removeItem_def present_def)

lemma isEmployeeRole_JStr: "isEmployeeRole v \<Longrightarrow> \<exists>s. v = JStr s \<and> s \<noteq> []"
  by (auto simp: isEmployeeRole_def js_def)

lemma present_nonempty_string [simp]: "present (nonempty_string v) = (nonempty_string v \<noteq> None)"
  by (cases v) (simp_all add: present_def nonempty_string_def)

lemma string_test [simp]:
  "(js_typeof v = ''string'' \<and> truthy v) = (nonempty_string v \<noteq> None)"
  by (cases v) (simp_all add: nonempty_string_def)

lemma as_role_None [simp]: "(as_role v = None) = (\<not> isEmployeeRole v)"
  using isEmployeeRole_JStr [of v] by (auto simp: as_role_def)

lemma present_as_role [simp]: "present (as_role v) = isEmployeeRole v"
  using isEmployeeRole_JStr [of v] by (auto simp: as_role_def present_def)

lemma as_role_valid: "as_role v = Some r \<Longrightarrow> r \<in> employee_roles"
  by (auto simp: as_role_def isEmployeeRole_def employee_roles_def split: if_splits)

lemma member_not_object: "\<not> truthy v \<or> js_typeof v \<noteq> ''object'' \<Longrightarrow> member v k = JUndefined"
  by (cases v) simp_all

lemma decodeJwt_returns: "\<exists>v. decodeJwt t = Inr v"
  by (simp add: decodeJwt_def split: sum.split)

lemma claims_steps_untruthy:
  "\<not> truthy c \<Longrightarrow> claims_employeeId c (claims_role c (claims_institutionId c x)) = x"
  by (cases c) (simp_all add: claims_employeeId_def claims_role_def claims_institutionId_def
      split_def nonempty_string_def as_role_def isEmployeeRole_def present_def)

lemma token_step_eq:
  "token_step R (w, n) =
     (case nonempty_string (member R (js ''accessToken'')) of
        None \<Rightarrow> (w, Inr n)
      | Some t \<Rightarrow>
          (case claims_employeeId (token_claims R) (claims_role (token_claims R)
                   (claims_institutionId (token_claims R) (setAuthToken (Some t) w, n))) of
             (w2, n2) \<Rightarrow> (w2, Inr n2)))"
proof (cases "nonempty_string (member R (js ''accessToken''))")
  case None
  then show ?thesis
    by (auto simp: token_step_def nonempty_string_def split: jsval.splits if_splits)
next
  case (Some t)
  then have m: "member R (js ''accessToken'') = JStr t" and t: "t \<noteq> []"
    by (auto simp: nonempty_string_def split: jsval.splits if_splits)
  obtain c where c: "decodeJwt t = Inr c" using decodeJwt_returns by blast
  have tc: "token_claims R = c" by (simp add: token_claims_def Some c)
  show ?thesis
  proof (cases "truthy c")
    case True
    then show ?thesis using Some m t c tc by (simp add: token_step_def)
  next
    case False
    then show ?thesis using Some m t c tc claims_steps_untruthy [OF False]
      by (simp add: token_step_def)
  qed
qed

subsection \<open>The steps of the response application\<close>

lemmas views = role_view_def institution_view_def employee_view_def rest_view_def

lemmas persist_eqs = persistInstitutionId_eq persistRole_eq persistEmployeeId_eq

lemma nonempty_string_Some: "nonempty_string v = Some s \<Longrightarrow> s \<noteq> []"
  by (cases v) (simp_all add: nonempty_string_def split: if_splits)

lemma as_role_Some: "as_role v = Some s \<Longrightarrow> s \<noteq> []"
  using as_role_valid employee_roles_nonempty by blast

lemma present_Some_nonempty_string [simp]: "nonempty_string v = Some s \<Longrightarrow> present (Some s)"
  by (simp add: present_def nonempty_string_Some)

lemma present_Some_as_role [simp]: "as_role v = Some s \<Longrightarrow> present (Some s)"
  by (simp add: present_def as_role_Some)

lemma as_role_SomeD [simp]: "as_role v = Some s \<Longrightarrow> isEmployeeRole v"
  by (simp add: as_role_def split: if_splits)

lemma string_test3 [simp]:
  "(js_typeof v = ''string'' \<and> truthy v \<and> P) = (nonempty_string v \<noteq> None \<and> P)"
  using string_test [of v] by blast

lemma claims_institutionId_views [simp]:
  "role_view (claims_institutionId c x) = role_view x"
  "employee_view (claims_institutionId c x) = employee_view x"
  "rest_view (claims_institutionId c x) = rest_view x"
  "institution_view (claims_institutionId c x) =
     (case nonempty_string (member c (js ''institutionId'')) of
        Some s \<Rightarrow> (Some s, Some s, Some s) | None \<Rightarrow> institution_view x)"
  "k \<notin> session_keys \<Longrightarrow> localStorage (fst (claims_institutionId c x)) k = localStorage (fst x) k"
  by (auto simp: claims_institutionId_def Let_def split_def views persist_eqs session_keys_def
      split: option.splits)

lemma claims_role_views [simp]:
  "institution_view (claims_role c x) = institution_view x"
  "employee_view (claims_role c x) = employee_view x"
  "rest_view (claims_role c x) = rest_view x"
  "role_view (claims_role c x) =
     (case as_role (member c (js ''role'')) of
        Some s \<Rightarrow> (Some s, Some s, Some s) | None \<Rightarrow> role_view x)"
  "k \<notin> session_keys \<Longrightarrow> localStorage (fst (claims_role c x)) k = localStorage (fst x) k"
  by (auto simp: claims_role_def Let_def split_def views persist_eqs session_keys_def
      split: option.splits)

lemma claims_employeeId_views [simp]:
  "institution_view (claims_employeeId c x) = institution_view x"
  "role_view (claims_employeeId c x) = role_view x"
  "rest_view (claims_employeeId c x) = rest_view x"
  "employee_view (claims_employeeId c x) =
     (case nonempty_string (member c (js ''sub'')) of
        Some s \<Rightarrow> (Some s, Some s, Some s) | None \<Rightarrow> employee_view x)"
  "k \<notin> session_keys \<Longrightarrow> localStorage (fst (claims_employeeId c x)) k = localStorage (fst x) k"
  by (auto simp: claims_employeeId_def Let_def split_def views persist_eqs session_keys_def
      split: option.splits)

lemma institution_fallback_views [simp]:
  "role_view (institution_fallback R x) = role_view x"
  "employee_view (institution_fallback R x) = employee_view x"
  "rest_view (institution_fallback R x) = rest_view x"
  "institution_view (institution_fallback R x) =
     (case nonempty_string (maybeInstitutionId R) of
        Some s \<Rightarrow> (Some s, Some s,
                   if present (snd (snd (institution_view x))) then snd (snd (institution_view x))
                   else Some s)
      | None \<Rightarrow> institution_view x)"
  "k \<notin> session_keys \<Longrightarrow> localStorage (fst (institution_fallback R x)) k = localStorage (fst x) k"
  by (auto simp: institution_fallback_def split_def views persist_eqs session_keys_def Let_def
      split: option.splits)

lemma role_fallback_views [simp]:
  "institution_view (role_fallback R x) = institution_view x"
  "employee_view (role_fallback R x) = employee_view x"
  "rest_view (role_fallback R x) = rest_view x"
  "role_view (role_fallback R x) =
     (case as_role (maybeRole R) of
        Some s \<Rightarrow> (if present (snd (snd (role_view x))) then role_view x
                   else (Some s, Some s, Some s))
      | None \<Rightarrow> role_view x)"
  "k \<notin> session_keys \<Longrightarrow> localStorage (fst (role_fallback R x)) k = localStorage (fst x) k"
  by (auto simp: role_fallback_def Let_def split_def views persist_eqs session_keys_def
      split: option.splits)

lemma employee_fallback_views [simp]:
  "institution_view (employee_fallback R x) = institution_view x"
  "role_view (employee_fallback R x) = role_view x"
  "rest_view (employee_fallback R x) = rest_view x"
  "employee_view (employee_fallback R x) =
     (case nonempty_string (maybeEmployeeId R) of
        Some s \<Rightarrow> (if present (snd (snd (employee_view x))) then employee_view x
                   else (Some s, Some s, Some s))
      | None \<Rightarrow> employee_view x)"
  "k \<notin> session_keys \<Longrightarrow> localStorage (fst (employee_fallback R x)) k = localStorage (fst x) k"
  by (auto simp: employee_fallback_def Let_def split_def views persist_eqs session_keys_def
      split: option.splits)

lemma applyAuthResponse_applied:
  "applyAuthResponse R w = (fst (applied R w), Inr (snd (applied R w)))"
proof (cases "\<not> truthy R \<or> js_typeof R \<noteq> ''object''")
  case True
  then show ?thesis by (auto simp: applyAuthResponse_def applied_def)
next
  case False
  have ts: "token_step R (w, n) =
      (case claims_employeeId (token_claims R) (claims_role (token_claims R)
               (claims_institutionId (token_claims R)
                 ((case nonempty_string (member R (js ''accessToken'')) of
                     None \<Rightarrow> w | Some t \<Rightarrow> setAuthToken (Some t) w), n))) of
         (w2, n2) \<Rightarrow> (w2, Inr n2))" for n
  proof (cases "nonempty_string (member R (js ''accessToken''))")
    case None
    then have "token_claims R = JNull" by (simp add: token_claims_def)
    then show ?thesis using None claims_steps_untruthy [of JNull "(w, n)"]
      by (simp add: token_step_eq)
  next
    case (Some t)
    then show ?thesis by (simp add: token_step_eq)
  qed
  show ?thesis using False
    by (simp add: applyAuthResponse_def applied_def ts split_def Let_def)
qed

lemma present_simps [simp]: "present None = False" "present (Some s) = (s \<noteq> [])"
  by (simp_all add: present_def)

lemma never_empty [simp]: "nonempty_string v \<noteq> Some []" "as_role v \<noteq> Some []"
  using nonempty_string_Some [of v "[]"] as_role_Some [of v "[]"] by auto

lemma not_object_sources:
  assumes "\<not> truthy R \<or> js_typeof R \<noteq> ''object''"
  shows "nonempty_string (member R (js ''accessToken'')) = None"
    and "token_claims R = JNull"
    and "maybeInstitutionId R = JUndefined"
    and "maybeRole R = JUndefined"
    and "maybeEmployeeId R = JUndefined"
  using member_not_object [OF assms]
  by (simp_all add: token_claims_def maybeInstitutionId_def maybeRole_def maybeEmployeeId_def
      js_or_def opt_member_def nonempty_string_def)

lemma sources_of_null [simp]:
  "nonempty_string (member JNull k) = None" "as_role (member JNull k) = None"
  "nonempty_string JUndefined = None" "as_role JUndefined = None"
  by (simp_all add: nonempty_string_def as_role_def isEmployeeRole_def)

lemma token_world_views:
  "role_view ((case tok of None \<Rightarrow> w | Some t \<Rightarrow> setAuthToken (Some t) w), n)
     = (role w, localStorage w (js ''employeeRole''), nextRole n)"
  "institution_view ((case tok of None \<Rightarrow> w | Some t \<Rightarrow> setAuthToken (Some t) w), n)
     = (institutionId w, localStorage w (js ''institutionId''), nextInstitutionId n)"
  "employee_view ((case tok of None \<Rightarrow> w | Some t \<Rightarrow> setAuthToken (Some t) w), n)
     = (employeeId w, localStorage w (js ''employeeId''), nextEmployeeId n)"
  "localStorage (case tok of None \<Rightarrow> w | Some t \<Rightarrow> setAuthToken (Some t) w) k = localStorage w k"
  by (simp_all add: views setAuthToken_eq split: option.splits)

lemma applied_role_view:
  "role_view (applied R w) =
     (case as_role (member (token_claims R) (js ''role'')) of
        Some s \<Rightarrow> (Some s, Some s, Some s)
      | None \<Rightarrow>
          (case as_role (maybeRole R) of
             Some s \<Rightarrow> (Some s, Some s, Some s)
           | None \<Rightarrow> (role w, localStorage w (js ''employeeRole''), None)))"
proof (cases "\<not> truthy R \<or> js_typeof R \<noteq> ''object''")
  case True
  then show ?thesis
    by (simp add: applied_def not_object_sources [OF True] role_view_def)
next
  case False
  then show ?thesis
    by (simp add: applied_def token_world_views split: option.splits)
qed

lemma applied_employee_view:
  "employee_view (applied R w) =
     (case nonempty_string (member (token_claims R) (js ''sub'')) of
        Some s \<Rightarrow> (Some s, Some s, Some s)
      | None \<Rightarrow>
          (case nonempty_string (maybeEmployeeId R) of
             Some s \<Rightarrow> (Some s, Some s, Some s)
           | None \<Rightarrow> (employeeId w, localStorage w (js ''employeeId''), None)))"
proof (cases "\<not> truthy R \<or> js_typeof R \<noteq> ''object''")
  case True
  then show ?thesis
    by (simp add: applied_def not_object_sources [OF True] employee_view_def)
next
  case False
  then show ?thesis
    by (simp add: applied_def token_world_views split: option.splits)
qed

lemma applied_institution_view:
  "institution_view (applied R w) =
     (case nonempty_string (maybeInstitutionId R) of
        Some b \<Rightarrow>
          (Some b, Some b,
           case nonempty_string (member (token_claims R) (js ''institutionId'')) of
             Some a \<Rightarrow> Some a | None \<Rightarrow> Some b)
      | None \<Rightarrow>
          (case nonempty_string (member (token_claims R) (js ''institutionId'')) of
             Some a \<Rightarrow> (Some a, Some a, Some a)
           | None \<Rightarrow> (institutionId w, localStorage w (js ''institutionId''), None)))"
proof (cases "\<not> truthy R \<or> js_typeof R \<noteq> ''object''")
  case True
  then show ?thesis
    by (simp add: applied_def not_object_sources [OF True] institution_view_def)
next
  case False
  then show ?thesis
    by (simp add: applied_def token_world_views split: option.splits)
qed

lemma applied_rest_view:
  "rest_view (applied R w) =
     ((case nonempty_string (member R (js ''accessToken'')) of
         Some t \<Rightarrow> Some (js ''Bearer '' @ t) | None \<Rightarrow> Authorization w),
      isAuthenticated w, initializing w)"
proof (cases "\<not> truthy R \<or> js_typeof R \<noteq> ''object''")
  case True
  then show ?thesis
    by (simp add: applied_def not_object_sources [OF True] rest_view_def)
next
  case False
  have "rest_view ((case nonempty_string (member R (js ''accessToken'')) of
                     None \<Rightarrow> w | Some t \<Rightarrow> setAuthToken (Some t) w), n) =
     ((case nonempty_string (member R (js ''accessToken'')) of
         Some t \<Rightarrow> Some (js ''Bearer '' @ t) | None \<Rightarrow> Authorization w),
      isAuthenticated w, initializing w)" for n
    by (auto simp: rest_view_def setAuthToken_eq split: option.splits)
  with False show ?thesis
    by (simp add: applied_def)
qed

lemma applied_other_keys:
  "k \<notin> session_keys \<Longrightarrow> localStorage (fst (applied R w)) k = localStorage w k"
  by (simp add: applied_def token_world_views)

subsection \<open>The operations\<close>

lemma view_projections:
  "role (fst x) = fst (role_view x)"
  "localStorage (fst x) (js ''employeeRole'') = fst (snd (role_view x))"
  "nextRole (snd x) = snd (snd (role_view x))"
  "institutionId (fst x) = fst (institution_view x)"
  "localStorage (fst x) (js ''institutionId'') = fst (snd (institution_view x))"
  "nextInstitutionId (snd x) = snd (snd (institution_view x))"
  "employeeId (fst x) = fst (employee_view x)"
  "localStorage (fst x) (js ''employeeId'') = fst (snd (employee_view x))"
  "nextEmployeeId (snd x) = snd (snd (employee_view x))"
  "Authorization (fst x) = fst (rest_view x)"
  "isAuthenticated (fst x) = fst (snd (rest_view x))"
  "initializing (fst x) = snd (snd (rest_view x))"
  by (simp_all add: views)

lemmas applied_views =
  applied_role_view applied_institution_view applied_employee_view applied_rest_view

lemma local_cleanup_eq:
  "local_cleanup w =
     w\<lparr>Authorization := None, isAuthenticated := False, institutionId := None, role := None,
       employeeId := None,
       localStorage := (localStorage w)(js ''institutionId'' := None, js ''employeeRole'' := None,
                                        js ''employeeId'' := None)\<rparr>"
  by (simp add: local_cleanup_def setAuthToken_eq persist_eqs)

lemma request_world:
  "fst (request r w) =
     (case r of
        ErrorResponse status body \<Rightarrow> (if status = 401 then w\<lparr>Authorization := None\<rparr> else w)
      | _ \<Rightarrow> w)"
  by (simp add: request_def setAuthToken_eq Let_def split: http_result.splits)

lemma request_result:
  "snd (request (Fulfilled body) w) = Inr body"
  "\<exists>m. snd (request (ErrorResponse status body) w) = Inl (ApiError (Some status) m body)"
  "\<exists>m. snd (request NoResponse w) = Inl (ApiError None m JUndefined)"
  by (simp_all add: request_def Let_def)

lemma login_world:
  "fst (login r w) =
     (case r of
        Fulfilled R \<Rightarrow> (fst (applied R w))\<lparr>isAuthenticated := True\<rparr>
      | _ \<Rightarrow> local_cleanup (fst (request r w)))"
  by (cases r) (simp_all add: login_def request_def applyAuthResponse_applied Let_def)

lemma refresh_world:
  "fst (refresh r w) =
     (case r of
        Fulfilled R \<Rightarrow> (fst (applied R w))\<lparr>isAuthenticated := True\<rparr>
      | _ \<Rightarrow> local_cleanup (fst (request r w)))"
  by (cases r) (simp_all add: refresh_def request_def applyAuthResponse_applied Let_def)

lemma logout_world: "fst (logout r w) = local_cleanup (fst (request r w))"
  by (cases "request r w"; cases "snd (request r w)") (simp_all add: logout_def)

lemma logout_result:
  "snd (logout r w) = (case snd (request r w) of Inl e \<Rightarrow> Inl e | Inr body \<Rightarrow> Inr ())"
  by (cases "request r w"; cases "snd (request r w)") (simp_all add: logout_def)

subsection \<open>What every step of the session preserves\<close>



lemma applied_no_empty:
  "localStorage (fst (applied R w)) k = Some [] \<Longrightarrow> localStorage w k = Some []"
proof (cases "k \<in> session_keys")
  case False
  assume "localStorage (fst (applied R w)) k = Some []"
  with False show ?thesis by (simp add: applied_other_keys)
next
  case True
  assume a: "localStorage (fst (applied R w)) k = Some []"
  from True consider "k = js ''institutionId''" | "k = js ''employeeRole''" | "k = js ''employeeId''"
    by (auto simp: session_keys_def)
  then show ?thesis
  proof cases
    case 1
    with a show ?thesis
      by (simp add: view_projections(5) applied_institution_view split: option.splits)
  next
    case 2
    with a show ?thesis
      by (simp add: view_projections(2) applied_role_view split: option.splits)
  next
    case 3
    with a show ?thesis
      by (simp add: view_projections(8) applied_employee_view split: option.splits)
  qed
qed

lemma applied_flags:
  "isAuthenticated (fst (applied R w)) = isAuthenticated w"
  "initializing (fst (applied R w)) = initializing w"
  "Authorization (fst (applied R w)) =
     (case nonempty_string (member R (js ''accessToken'')) of
        Some t \<Rightarrow> Some (js ''Bearer '' @ t) | None \<Rightarrow> Authorization w)"
  by (simp_all add: view_projections(10,11,12) applied_rest_view)

lemma step_world:
  "step ev w =
     (case ev of
        Boot r \<Rightarrow> (case r of Fulfilled R \<Rightarrow> (fst (applied R w))\<lparr>isAuthenticated := True, initializing := False\<rparr>
                  | _ \<Rightarrow> (local_cleanup (fst (request r w)))\<lparr>initializing := False\<rparr>)
      | Login r \<Rightarrow> (case r of Fulfilled R \<Rightarrow> (fst (applied R w))\<lparr>isAuthenticated := True\<rparr>
                  | _ \<Rightarrow> local_cleanup (fst (request r w)))
      | Refresh r \<Rightarrow> (case r of Fulfilled R \<Rightarrow> (fst (applied R w))\<lparr>isAuthenticated := True\<rparr>
                  | _ \<Rightarrow> local_cleanup (fst (request r w)))
      | Logout r \<Rightarrow> local_cleanup (fst (request r w))
      | Request r \<Rightarrow> fst (request r w))"
  by (cases ev) (simp_all add: boot_def login_world refresh_world logout_world split: http_result.splits)


lemma step_no_empty: "localStorage (step ev w) k = Some [] \<Longrightarrow> localStorage w k = Some []"
  by (auto simp: step_world local_cleanup_eq request_world
      dest: applied_no_empty split: event.splits http_result.splits if_splits)

lemma step_header: 
  "(\<not> isAuthenticated w \<longrightarrow> Authorization w = None)
   \<Longrightarrow> \<not> isAuthenticated (step ev w) \<longrightarrow> Authorization (step ev w) = None"
  by (auto simp: step_world local_cleanup_eq request_world applied_flags
      split: event.splits http_result.splits if_splits)



lemma reachable_no_empty:
  "reachable st w \<Longrightarrow> localStorage w k = Some [] \<Longrightarrow> st k = Some []"
  by (induction rule: reachable.induct) (auto simp: initial_world_def dest: step_no_empty)

lemma reachable_header:
  "reachable st w \<Longrightarrow> \<not> isAuthenticated w \<longrightarrow> Authorization w = None"
  by (induction rule: reachable.induct) (simp_all add: initial_world_def step_header)

subsection \<open>Roles in a response\<close>

lemma as_role_enum: "r \<in> employee_roles \<Longrightarrow> as_role (JStr r) = Some r"
  by (auto simp: as_role_def isEmployeeRole_def employee_roles_def)



lemma token_claims_decoded:
  "member R (js ''accessToken'') = JStr t \<Longrightarrow> t \<noteq> [] \<Longrightarrow> decodeJwt t = Inr claims
   \<Longrightarrow> token_claims R = claims"
  by (simp add: token_claims_def nonempty_string_def)

subsection \<open>The institution id fallback\<close>

lemma nonempty_string_falsy: "\<not> truthy v \<Longrightarrow> nonempty_string v = None"
  by (cases v) (simp_all add: nonempty_string_def)

lemma maybeInstitutionId_first_truthy:
  "nonempty_string (maybeInstitutionId R) = nonempty_string (first_truthy (institution_sources R))"
  by (simp add: maybeInstitutionId_def institution_sources_def js_or_def nonempty_string_falsy)

lemma first_truthy_strings:
  "(\<forall>v\<in>set vs. truthy v \<longrightarrow> js_typeof v = ''string'')
   \<Longrightarrow> nonempty_string (first_truthy vs) = first_nonempty_string vs"
proof (induction vs)
  case Nil
  then show ?case by simp
next
  case (Cons v vs)
  show ?case
  proof (cases "truthy v")
    case True
    with Cons.prems have "js_typeof v = ''string''" by simp
    with True obtain s where "nonempty_string v = Some s"
      using string_test [of v] by auto
    with True show ?thesis by simp
  next
    case False
    with Cons show ?thesis by (simp add: nonempty_string_falsy)
  qed
qed

lemma institution_fallback_first_truthy:
  "\<not> present (nextInstitutionId n) \<Longrightarrow>
   institution_fallback R (w, n) =
     (case nonempty_string (first_truthy (institution_sources R)) of
        Some s \<Rightarrow> (persistInstitutionId (Some s) w, n\<lparr>nextInstitutionId := Some s\<rparr>)
      | None \<Rightarrow> (w, n))"
  by (simp add: institution_fallback_def maybeInstitutionId_first_truthy [symmetric] Let_def
      split: option.splits)

subsection \<open>The token decoder\<close>




subsection \<open>The unauthenticated state and the example responses\<close>

lemma local_cleanup_unauthenticated: "local_cleanup w = unauthenticated_from w"
  by (simp add: local_cleanup_eq unauthenticated_from_def)

lemma unauthenticated_from_header [simp]:
  "unauthenticated_from (w\<lparr>Authorization := a\<rparr>) = unauthenticated_from w"
  by (simp add: unauthenticated_from_def)

lemma ProtectedRoute_header [simp]:
  "ProtectedRoute allowedRoles (w\<lparr>Authorization := a\<rparr>) = ProtectedRoute allowedRoles w"
  by (simp add: ProtectedRoute_def)

lemma scenarioA_applied:
  "role (fst (applied scenarioA w)) = Some (js ''ADMIN'')"
  "institutionId (fst (applied scenarioA w)) = Some (js ''inst-9'')"
  "employeeId (fst (applied scenarioA w)) = Some (js ''emp-1'')"
  "localStorage (fst (applied scenarioA w)) (js ''employeeRole'') = Some (js ''ADMIN'')"
  "Authorization (fst (applied scenarioA w)) \<noteq> None"
proof -
  have tc: "token_claims scenarioA =
      JObj [(js ''institutionId'', JStr (js ''inst-9'')), (js ''role'', JStr (js ''ADMIN'')),
            (js ''sub'', JStr (js ''emp-1''))]"
    by code_simp
  have c: "as_role (member (token_claims scenarioA) (js ''role'')) = Some (js ''ADMIN'')"
    unfolding tc by code_simp
  have i: "nonempty_string (member (token_claims scenarioA) (js ''institutionId''))
           = Some (js ''inst-9'')"
    unfolding tc by code_simp
  have e: "nonempty_string (member (token_claims scenarioA) (js ''sub'')) = Some (js ''emp-1'')"
    unfolding tc by code_simp
  have m: "nonempty_string (maybeInstitutionId scenarioA) = None"
    by code_simp
  have t: "nonempty_string (member scenarioA (js ''accessToken'')) \<noteq> None"
    by code_simp
  show "role (fst (applied scenarioA w)) = Some (js ''ADMIN'')"
    by (simp add: view_projections(1) applied_role_view c)
  show "institutionId (fst (applied scenarioA w)) = Some (js ''inst-9'')"
    by (simp add: view_projections(4) applied_institution_view i m)
  show "employeeId (fst (applied scenarioA w)) = Some (js ''emp-1'')"
    by (simp add: view_projections(7) applied_employee_view e)
  show "localStorage (fst (applied scenarioA w)) (js ''employeeRole'') = Some (js ''ADMIN'')"
    by (simp add: view_projections(2) applied_role_view c)
  show "Authorization (fst (applied scenarioA w)) \<noteq> None"
    using t by (auto simp: applied_flags(3))
qed

lemma scenarioB_no_token: "nonempty_string (member scenarioB (js ''accessToken'')) = None"
  by code_simp

lemma earlier_session_reachable: "reachable Map.empty earlier_session"
  unfolding earlier_session_def fresh_world_def by (intro reachable.after reachable.start)

lemma earlier_session_fields:
  "Authorization earlier_session = Some (js ''Bearer earlier'')"
  "isAuthenticated earlier_session"
  "\<not> initializing earlier_session"
  "role earlier_session = Some (js ''ADMIN'')"
  "institutionId earlier_session = None"
  "employeeId earlier_session = None"
  "localStorage earlier_session (js ''employeeRole'') = Some (js ''ADMIN'')"
  by code_simp+

section \<open>Properties\<close>

subsection \<open>C1: the flag and the header\<close>

text \<open>
  C1, as the code has it. In every state the session can reach, if \<open>isAuthenticated\<close> is
  false then the \<^verbatim>\<open>Authorization\<close> header is absent. The converse holds only as far as the
  responses carry tokens: a login or refresh whose response holds a non-empty string
  under \<^verbatim>\<open>accessToken\<close> ends with the flag true and the header \<^verbatim>\<open>Bearer\<close> followed by that
  token; a login or refresh whose response holds no such token ends with the flag true
  and the header as it was before; and a response with status 401 to any request
  removes the header and leaves the flag as it was.
\<close>

theorem header_follows_flag_one_way:
  "(reachable st w \<longrightarrow> \<not> isAuthenticated w \<longrightarrow> Authorization w = None)
   \<and> (nonempty_string (member R (js ''accessToken'')) = Some t \<longrightarrow>
        isAuthenticated (fst (login (Fulfilled R) w0))
        \<and> Authorization (fst (login (Fulfilled R) w0)) = Some (js ''Bearer '' @ t)
        \<and> isAuthenticated (fst (refresh (Fulfilled R) w0))
        \<and> Authorization (fst (refresh (Fulfilled R) w0)) = Some (js ''Bearer '' @ t))
   \<and> (nonempty_string (member R (js ''accessToken'')) = None \<longrightarrow>
        isAuthenticated (fst (login (Fulfilled R) w0))
        \<and> Authorization (fst (login (Fulfilled R) w0)) = Authorization w0
        \<and> isAuthenticated (fst (refresh (Fulfilled R) w0))
        \<and> Authorization (fst (refresh (Fulfilled R) w0)) = Authorization w0)
   \<and> isAuthenticated (fst (request (ErrorResponse 401 body) w0)) = isAuthenticated w0
   \<and> Authorization (fst (request (ErrorResponse 401 body) w0)) = None"
  using reachable_header [of st w]
  by (simp add: login_world refresh_world request_world applied_flags)

theorem header_follows_flag_one_way_witness:
  "reachable Map.empty (step (Logout NoResponse) (step (Login (Fulfilled scenarioA)) fresh_world))
   \<and> \<not> isAuthenticated (step (Logout NoResponse) (step (Login (Fulfilled scenarioA)) fresh_world))
   \<and> Authorization (step (Logout NoResponse) (step (Login (Fulfilled scenarioA)) fresh_world)) = None
   \<and> isAuthenticated (fst (login (Fulfilled scenarioA) fresh_world))
   \<and> Authorization (fst (login (Fulfilled scenarioA) fresh_world))
       = Some (js ''Bearer h.eyJzdWIiOiJlbXAtMSIsInJvbGUiOiJBRE1JTiIsImluc3RpdHV0aW9uSWQiOiJpbnN0LTkifQ.s'')
   \<and> nonempty_string (member scenarioB (js ''accessToken'')) = None
   \<and> isAuthenticated (fst (refresh (Fulfilled scenarioB) earlier_session))
   \<and> Authorization (fst (refresh (Fulfilled scenarioB) earlier_session))
       = Some (js ''Bearer earlier'')"
proof -
  let ?w = "step (Logout NoResponse) (step (Login (Fulfilled scenarioA)) fresh_world)"
  let ?t = "js ''h.eyJzdWIiOiJlbXAtMSIsInJvbGUiOiJBRE1JTiIsImluc3RpdHV0aW9uSWQiOiJpbnN0LTkifQ.s''"
  have r: "reachable Map.empty ?w"
    unfolding fresh_world_def by (intro reachable.after reachable.start)
  have n: "\<not> isAuthenticated ?w"
    by (simp add: logout_world local_cleanup_eq)
  have t: "nonempty_string (member scenarioA (js ''accessToken'')) = Some ?t"
    by code_simp
  have b: "js ''Bearer '' @ ?t
     = js ''Bearer h.eyJzdWIiOiJlbXAtMSIsInJvbGUiOiJBRE1JTiIsImluc3RpdHV0aW9uSWQiOiJpbnN0LTkifQ.s''"
    by (simp add: js_def)
  have e: "Authorization earlier_session = Some (js ''Bearer earlier'')"
    by (rule earlier_session_fields)
  from header_follows_flag_one_way [of Map.empty ?w scenarioA ?t fresh_world]
    header_follows_flag_one_way [of Map.empty ?w scenarioB ?t earlier_session]
    r n t b e scenarioB_no_token
  show ?thesis by simp
qed

text \<open>
  C1 as stated fails in the direction from the flag to the header: after a login with
  the response of Scenario B, which has no token, and after a 401 that follows a login
  with the response of Scenario A, the session is authenticated and the header is
  absent. Both states are reachable from a page loaded with nothing stored.
\<close>

theorem header_follows_flag_one_way_counterexample:
  "reachable Map.empty (step (Login (Fulfilled scenarioB)) fresh_world)
   \<and> isAuthenticated (step (Login (Fulfilled scenarioB)) fresh_world)
   \<and> Authorization (step (Login (Fulfilled scenarioB)) fresh_world) = None
   \<and> reachable Map.empty
        (step (Request (ErrorResponse 401 JNull)) (step (Login (Fulfilled scenarioA)) fresh_world))
   \<and> isAuthenticated
        (step (Request (ErrorResponse 401 JNull)) (step (Login (Fulfilled scenarioA)) fresh_world))
   \<and> Authorization
        (step (Request (ErrorResponse 401 JNull)) (step (Login (Fulfilled scenarioA)) fresh_world))
       = None"
proof -
  have r1: "reachable Map.empty (step (Login (Fulfilled scenarioB)) fresh_world)"
    unfolding fresh_world_def by (intro reachable.after reachable.start)
  have r2: "reachable Map.empty
        (step (Request (ErrorResponse 401 JNull)) (step (Login (Fulfilled scenarioA)) fresh_world))"
    unfolding fresh_world_def by (intro reachable.after reachable.start)
  have a: "isAuthenticated (step (Login (Fulfilled scenarioB)) fresh_world)
   \<and> Authorization (step (Login (Fulfilled scenarioB)) fresh_world) = None"
    by (simp add: login_world applied_flags(3) scenarioB_no_token fresh_world_def
        initial_world_def)
  have b: "isAuthenticated
        (step (Request (ErrorResponse 401 JNull)) (step (Login (Fulfilled scenarioA)) fresh_world))
   \<and> Authorization
        (step (Request (ErrorResponse 401 JNull)) (step (Login (Fulfilled scenarioA)) fresh_world))
       = None"
    by (simp add: login_world request_world)
  from r1 r2 a b show ?thesis by simp
qed

subsection \<open>C2: what a response with status 401 does\<close>

text \<open>
  C2, as the code has it. A response with status exactly 401 to a request makes the HTTP
  client remove the \<^verbatim>\<open>Authorization\<close> header and nothing else: the flag, the three session
  fields and the storage are unchanged, and so is what the route guard shows; a
  response with any other error status changes nothing. The session becomes
  unauthenticated (credential absent, flag false, the three fields and their stored
  copies cleared) when the request that fails is the call of \<open>login\<close>, \<open>refresh\<close> or
  \<open>logout\<close> itself; from that state, once initializing is over, the route guard
  redirects to the login route.
\<close>

theorem unauthorized_clears_credential_only:
  "fst (request (ErrorResponse 401 body) w) = w\<lparr>Authorization := None\<rparr>
   \<and> ProtectedRoute allowedRoles (fst (request (ErrorResponse 401 body) w))
       = ProtectedRoute allowedRoles w
   \<and> (status \<noteq> 401 \<longrightarrow> fst (request (ErrorResponse status body) w) = w)
   \<and> fst (login (ErrorResponse 401 body) w) = unauthenticated_from w
   \<and> fst (refresh (ErrorResponse 401 body) w) = unauthenticated_from w
   \<and> fst (logout (ErrorResponse 401 body) w) = unauthenticated_from w
   \<and> (\<not> initializing w \<longrightarrow>
        ProtectedRoute allowedRoles (unauthenticated_from w) = Navigate (js ''/login''))"
  by (simp add: request_world login_world refresh_world logout_world
      local_cleanup_unauthenticated)
    (simp add: unauthenticated_from_def ProtectedRoute_def)

theorem unauthorized_clears_credential_only_witness:
  "\<not> initializing earlier_session
   \<and> Authorization (fst (request (ErrorResponse 401 JNull) earlier_session)) = None
   \<and> isAuthenticated (fst (request (ErrorResponse 401 JNull) earlier_session))
   \<and> role (fst (request (ErrorResponse 401 JNull) earlier_session)) = Some (js ''ADMIN'')
   \<and> fst (request (ErrorResponse 500 JNull) earlier_session) = earlier_session
   \<and> ProtectedRoute (Some [js ''ADMIN''])
        (fst (refresh (ErrorResponse 401 JNull) earlier_session)) = Navigate (js ''/login'')"
proof -
  have i: "\<not> initializing earlier_session" by (rule earlier_session_fields)
  have s: "(500::nat) \<noteq> 401" by simp
  from unauthorized_clears_credential_only
         [of JNull earlier_session "Some [js ''ADMIN'']" 500] i s
  show ?thesis by (simp add: earlier_session_fields)
qed

text \<open>
  C2 as stated fails: after the boot, a login with the response of Scenario A and a 401
  to some other request, the session is still authenticated with its role, institution
  id and employee id, in the state and in the storage; only the header is gone, and the
  route guard renders the content of a route that allows ADMIN.
\<close>

theorem unauthorized_clears_credential_only_counterexample:
  "isAuthenticated
     (step (Request (ErrorResponse 401 JNull))
        (step (Login (Fulfilled scenarioA)) (step (Boot NoResponse) fresh_world)))
   \<and> role
       (step (Request (ErrorResponse 401 JNull))
          (step (Login (Fulfilled scenarioA)) (step (Boot NoResponse) fresh_world)))
       = Some (js ''ADMIN'')
   \<and> institutionId
       (step (Request (ErrorResponse 401 JNull))
          (step (Login (Fulfilled scenarioA)) (step (Boot NoResponse) fresh_world)))
       = Some (js ''inst-9'')
   \<and> employeeId
       (step (Request (ErrorResponse 401 JNull))
          (step (Login (Fulfilled scenarioA)) (step (Boot NoResponse) fresh_world)))
       = Some (js ''emp-1'')
   \<and> localStorage
       (step (Request (ErrorResponse 401 JNull))
          (step (Login (Fulfilled scenarioA)) (step (Boot NoResponse) fresh_world)))
       (js ''employeeRole'') = Some (js ''ADMIN'')
   \<and> Authorization
       (step (Request (ErrorResponse 401 JNull))
          (step (Login (Fulfilled scenarioA)) (step (Boot NoResponse) fresh_world)))
       = None
   \<and> ProtectedRoute (Some [js ''ADMIN''])
       (step (Request (ErrorResponse 401 JNull))
          (step (Login (Fulfilled scenarioA)) (step (Boot NoResponse) fresh_world)))
       = Outlet"
  by (simp add: login_world request_world boot_def refresh_world local_cleanup_eq
      applied_flags(1,2) scenarioA_applied ProtectedRoute_def)

subsection \<open>C3: what is stored against what is returned\<close>

text \<open>
  C3, as the code has it. For every response, \<open>applyAuthResponse\<close> returns normally, and
  afterwards: the stored role is the returned role when that is not \<^verbatim>\<open>null\<close>, and is
  otherwise what was stored before; the same holds for the stored employee id; it holds
  for the stored institution id whenever the response's own institution fields supply
  no institution id or supply the one that is returned; and the \<^verbatim>\<open>Authorization\<close> header
  is \<^verbatim>\<open>Bearer\<close> followed by the token when the response holds a non-empty string under
  \<^verbatim>\<open>accessToken\<close>, and is otherwise left as it was. Starting without a header, the header
  is therefore set exactly when the response contains a non-empty token.
\<close>

theorem applyAuthResponse_session_consistency:
  "\<exists>w' n. applyAuthResponse R w = (w', Inr n)
     \<and> localStorage w' (js ''employeeRole'')
         = (if nextRole n \<noteq> None then nextRole n else localStorage w (js ''employeeRole''))
     \<and> localStorage w' (js ''employeeId'')
         = (if nextEmployeeId n \<noteq> None then nextEmployeeId n
            else localStorage w (js ''employeeId''))
     \<and> (nonempty_string (maybeInstitutionId R) = None
          \<or> nonempty_string (maybeInstitutionId R) = nextInstitutionId n
         \<longrightarrow> localStorage w' (js ''institutionId'')
               = (if nextInstitutionId n \<noteq> None then nextInstitutionId n
                  else localStorage w (js ''institutionId'')))
     \<and> Authorization w'
         = (case nonempty_string (member R (js ''accessToken'')) of
              Some t \<Rightarrow> Some (js ''Bearer '' @ t)
            | None \<Rightarrow> Authorization w)
     \<and> (Authorization w = None
         \<longrightarrow> (Authorization w' \<noteq> None) = (nonempty_string (member R (js ''accessToken'')) \<noteq> None))"
proof -
  let ?x = "applied R w"
  have r: "localStorage (fst ?x) (js ''employeeRole'')
         = (if nextRole (snd ?x) \<noteq> None then nextRole (snd ?x)
            else localStorage w (js ''employeeRole''))"
    by (simp add: view_projections(2,3) applied_role_view split: option.splits)
  have e: "localStorage (fst ?x) (js ''employeeId'')
         = (if nextEmployeeId (snd ?x) \<noteq> None then nextEmployeeId (snd ?x)
            else localStorage w (js ''employeeId''))"
    by (simp add: view_projections(8,9) applied_employee_view split: option.splits)
  have i: "nonempty_string (maybeInstitutionId R) = None
          \<or> nonempty_string (maybeInstitutionId R) = nextInstitutionId (snd ?x)
         \<longrightarrow> localStorage (fst ?x) (js ''institutionId'')
               = (if nextInstitutionId (snd ?x) \<noteq> None then nextInstitutionId (snd ?x)
                  else localStorage w (js ''institutionId''))"
    by (auto simp: view_projections(5,6) applied_institution_view split: option.splits)
  have a: "Authorization (fst ?x)
         = (case nonempty_string (member R (js ''accessToken'')) of
              Some t \<Rightarrow> Some (js ''Bearer '' @ t)
            | None \<Rightarrow> Authorization w)"
    by (rule applied_flags(3))
  then have a': "Authorization w = None
         \<longrightarrow> (Authorization (fst ?x) \<noteq> None)
              = (nonempty_string (member R (js ''accessToken'')) \<noteq> None)"
    by (simp split: option.splits)
  have ap: "applyAuthResponse R w = (fst ?x, Inr (snd ?x))"
    by (rule applyAuthResponse_applied)
  show ?thesis
    by (intro exI [of _ "fst ?x"] exI [of _ "snd ?x"] conjI) (fact ap r e i a a')+
qed

theorem applyAuthResponse_session_consistency_witness:
  "snd (applyAuthResponse scenarioA fresh_world)
     = Inr \<lparr>nextRole = Some (js ''ADMIN''), nextInstitutionId = Some (js ''inst-9''),
            nextEmployeeId = Some (js ''emp-1'')\<rparr>
   \<and> localStorage (fst (applyAuthResponse scenarioA fresh_world)) (js ''employeeRole'')
       = Some (js ''ADMIN'')
   \<and> localStorage (fst (applyAuthResponse scenarioA fresh_world)) (js ''employeeId'')
       = Some (js ''emp-1'')
   \<and> localStorage (fst (applyAuthResponse scenarioA fresh_world)) (js ''institutionId'')
       = Some (js ''inst-9'')
   \<and> Authorization (fst (applyAuthResponse scenarioA fresh_world)) \<noteq> None"
proof -
  have s: "snd (applyAuthResponse scenarioA fresh_world)
     = Inr \<lparr>nextRole = Some (js ''ADMIN''), nextInstitutionId = Some (js ''inst-9''),
            nextEmployeeId = Some (js ''emp-1'')\<rparr>"
    by code_simp
  have m: "nonempty_string (maybeInstitutionId scenarioA) = None"
    by code_simp
  have t: "nonempty_string (member scenarioA (js ''accessToken'')) \<noteq> None"
    by code_simp
  have f: "Authorization fresh_world = None"
    by (simp add: fresh_world_def initial_world_def)
  from applyAuthResponse_session_consistency [of scenarioA fresh_world] s m t f
  show ?thesis by auto
qed

text \<open>
  C3 as stated fails. A response that supplies no role leaves the role of an earlier
  session in the storage while it returns \<^verbatim>\<open>null\<close>, and a response without a token leaves
  the header of an earlier session in place. Separately, when the token's claims and
  the response's own field both supply an institution id, the one returned is the
  claims' (\<^verbatim>\<open>inst-9\<close>) and the one stored is the field's (\<^verbatim>\<open>inst-3\<close>): the fallback
  persists before it tests \<^verbatim>\<open>!nextInstitutionId\<close>, unlike the role and employee id
  fallbacks, which test first.
\<close>

theorem applyAuthResponse_session_consistency_counterexample:
  "reachable Map.empty earlier_session
   \<and> snd (applyAuthResponse employee_only_response earlier_session)
     = Inr \<lparr>nextRole = None, nextInstitutionId = None, nextEmployeeId = Some (js ''emp-2'')\<rparr>
   \<and> localStorage (fst (applyAuthResponse employee_only_response earlier_session))
        (js ''employeeRole'') = Some (js ''ADMIN'')
   \<and> member employee_only_response (js ''accessToken'') = JUndefined
   \<and> Authorization (fst (applyAuthResponse employee_only_response earlier_session))
       = Some (js ''Bearer earlier'')
   \<and> snd (applyAuthResponse two_institutions_response fresh_world)
       = Inr \<lparr>nextRole = None, nextInstitutionId = Some (js ''inst-9''), nextEmployeeId = None\<rparr>
   \<and> localStorage (fst (applyAuthResponse two_institutions_response fresh_world))
        (js ''institutionId'') = Some (js ''inst-3'')"
proof -
  have "snd (applyAuthResponse employee_only_response earlier_session)
     = Inr \<lparr>nextRole = None, nextInstitutionId = None, nextEmployeeId = Some (js ''emp-2'')\<rparr>
   \<and> localStorage (fst (applyAuthResponse employee_only_response earlier_session))
        (js ''employeeRole'') = Some (js ''ADMIN'')
   \<and> member employee_only_response (js ''accessToken'') = JUndefined
   \<and> Authorization (fst (applyAuthResponse employee_only_response earlier_session))
       = Some (js ''Bearer earlier'')
   \<and> snd (applyAuthResponse two_institutions_response fresh_world)
       = Inr \<lparr>nextRole = None, nextInstitutionId = Some (js ''inst-9''), nextEmployeeId = None\<rparr>
   \<and> localStorage (fst (applyAuthResponse two_institutions_response fresh_world))
        (js ''institutionId'') = Some (js ''inst-3'')"
    by code_simp
  with earlier_session_reachable show ?thesis by simp
qed

subsection \<open>C4: the role of the token's claims wins\<close>

text \<open>
  C4. When the response holds a non-empty token that decodes to claims whose role is one
  of the four enum values, \<open>applyAuthResponse\<close> returns, sets and stores that role,
  whatever the response's own top-level and nested role fields hold; in particular a
  top-level role with a different enum value is not applied. The witness is the
  response of property P2: claims with the role PUBLISHER beside a top-level ADMIN.
\<close>

theorem claims_role_wins:
  "member R (js ''accessToken'') = JStr t \<Longrightarrow> t \<noteq> [] \<Longrightarrow> decodeJwt t = Inr claims
   \<Longrightarrow> member claims (js ''role'') = JStr r \<Longrightarrow> r \<in> employee_roles
   \<Longrightarrow> \<exists>w' n. applyAuthResponse R w = (w', Inr n) \<and> nextRole n = Some r
         \<and> role w' = Some r \<and> localStorage w' (js ''employeeRole'') = Some r"
proof -
  assume h: "member R (js ''accessToken'') = JStr t" "t \<noteq> []" "decodeJwt t = Inr claims"
    "member claims (js ''role'') = JStr r" "r \<in> employee_roles"
  have "role_view (applied R w) = (Some r, Some r, Some r)"
    by (simp add: applied_role_view token_claims_decoded [OF h(1,2,3)] h(4) as_role_enum [OF h(5)])
  then have "nextRole (snd (applied R w)) = Some r \<and> role (fst (applied R w)) = Some r
     \<and> localStorage (fst (applied R w)) (js ''employeeRole'') = Some r"
    by (simp add: view_projections(1,2,3))
  then show ?thesis
    using applyAuthResponse_applied [of R w] by blast
qed

theorem claims_role_wins_witness:
  "member precedence_response (js ''accessToken'') = JStr publisher_token
   \<and> member precedence_response (js ''role'') = JStr (js ''ADMIN'')
   \<and> decodeJwt publisher_token = Inr (JObj [(js ''role'', JStr (js ''PUBLISHER''))])
   \<and> snd (applyAuthResponse precedence_response fresh_world)
       = Inr \<lparr>nextRole = Some (js ''PUBLISHER''), nextInstitutionId = None, nextEmployeeId = None\<rparr>
   \<and> role (fst (applyAuthResponse precedence_response fresh_world)) = Some (js ''PUBLISHER'')
   \<and> localStorage (fst (applyAuthResponse precedence_response fresh_world)) (js ''employeeRole'')
       = Some (js ''PUBLISHER'')"
proof -
  have h1: "member precedence_response (js ''accessToken'') = JStr publisher_token"
    by (simp add: precedence_response_def)
  have h1': "member precedence_response (js ''role'') = JStr (js ''ADMIN'')"
    by (simp add: precedence_response_def js_def)
  have h2: "publisher_token \<noteq> []" by (simp add: publisher_token_def js_def)
  have h3: "decodeJwt publisher_token = Inr (JObj [(js ''role'', JStr (js ''PUBLISHER''))])"
    by code_simp
  have h4: "member (JObj [(js ''role'', JStr (js ''PUBLISHER''))]) (js ''role'')
            = JStr (js ''PUBLISHER'')"
    by simp
  have h5: "js ''PUBLISHER'' \<in> employee_roles" by (simp add: employee_roles_def)
  have e: "snd (applyAuthResponse precedence_response fresh_world)
       = Inr \<lparr>nextRole = Some (js ''PUBLISHER''), nextInstitutionId = None, nextEmployeeId = None\<rparr>"
    by code_simp
  from claims_role_wins [OF h1 h2 h3 h4 h5, of fresh_world] h1 h1' h3 e
  show ?thesis by auto
qed

subsection \<open>C5: the token decoder never throws\<close>




subsection \<open>C6: the role is one of the four enum values or absent\<close>




subsection \<open>C7: logout always cleans up\<close>

text \<open>
  C7. Whatever the remote logout call comes back with (a response the client accepts, an
  error response or no response at all, the last two being the cases in which the call
  throws), \<open>logout\<close> leaves the credential absent, \<open>isAuthenticated\<close> false, the three
  session fields \<^verbatim>\<open>null\<close> and their three storage keys removed. The operation itself
  succeeds exactly when the remote call did; otherwise the error is rethrown after the
  cleanup.
\<close>

theorem logout_always_cleans_up:
  "Authorization (fst (logout r w)) = None
   \<and> \<not> isAuthenticated (fst (logout r w))
   \<and> institutionId (fst (logout r w)) = None
   \<and> role (fst (logout r w)) = None
   \<and> employeeId (fst (logout r w)) = None
   \<and> localStorage (fst (logout r w)) (js ''institutionId'') = None
   \<and> localStorage (fst (logout r w)) (js ''employeeRole'') = None
   \<and> localStorage (fst (logout r w)) (js ''employeeId'') = None
   \<and> (snd (logout r w) = Inr ()) = (\<exists>body. r = Fulfilled body)"
proof -
  have "(snd (logout r w) = Inr ()) = (\<exists>body. r = Fulfilled body)"
    by (cases r) (auto simp: logout_result request_def Let_def)
  then show ?thesis
    by (simp add: logout_world local_cleanup_eq)
qed

theorem logout_always_cleans_up_witness:
  "snd (logout NoResponse earlier_session) \<noteq> Inr ()
   \<and> Authorization earlier_session \<noteq> None
   \<and> Authorization (fst (logout NoResponse earlier_session)) = None
   \<and> \<not> isAuthenticated (fst (logout NoResponse earlier_session))
   \<and> role (fst (logout NoResponse earlier_session)) = None
   \<and> localStorage (fst (logout NoResponse earlier_session)) (js ''employeeRole'') = None"
  using logout_always_cleans_up [of NoResponse earlier_session]
  by (simp add: earlier_session_fields)

subsection \<open>C8: the route guard matrix\<close>

text \<open>
  C8. For every initializing flag, every isAuthenticated flag, every role that is absent
  or one of ADMIN, DISTRIBUTER, PUBLISHER, DELIVERER and every allow-list (absent, empty
  or not), \<open>ProtectedRoute\<close> shows what the rules of the specification choose, taken in
  order: loading while initializing; else the login route when not authenticated; else,
  when an allow-list is given and non-empty and the role is absent or not in it, the
  role's default landing route if there is a role and the unauthorized route if not;
  else the requested content. The five outcomes are shown by five different elements, so
  exactly one of them is produced.
\<close>

theorem route_guard_matrix:
  "valid_role (role w) \<Longrightarrow>
     ProtectedRoute allowedRoles w
       = shown (role w)
           (guard_rule (initializing w) (isAuthenticated w) (role w) allowedRoles)
     \<and> (\<forall>a b. shown (role w) a = shown (role w) b \<longrightarrow> a = b)"
  using ProtectedRoute_refines [of w allowedRoles] shown_inj [of "role w"] by blast

theorem route_guard_matrix_witness:
  "valid_role (Some (js ''ADMIN''))
   \<and> guard_rule False True (Some (js ''ADMIN'')) (Some [js ''DELIVERER'']) = RedirectRoleDefault
   \<and> ProtectedRoute (Some [js ''DELIVERER''])
        \<lparr>Authorization = None, localStorage = Map.empty, isAuthenticated = True,
         initializing = False, institutionId = None, role = Some (js ''ADMIN''),
         employeeId = None\<rparr> = Navigate (js ''/'')"
proof -
  let ?w = "\<lparr>Authorization = None, localStorage = Map.empty, isAuthenticated = True,
         initializing = False, institutionId = None, role = Some (js ''ADMIN''),
         employeeId = None\<rparr>"
  have v: "valid_role (role ?w)" by (simp add: valid_role_def employee_roles_def)
  have g: "guard_rule False True (Some (js ''ADMIN'')) (Some [js ''DELIVERER''])
           = RedirectRoleDefault"
    by (simp add: guard_rule_def)
  from route_guard_matrix [OF v, of "Some [js ''DELIVERER'']"] g v
  show ?thesis by (simp add: landing_route_def)
qed

subsection \<open>C9: the order of the institution id fallback\<close>

text \<open>
  C9, as the code has it. When the token step has not set the institution id, the
  fallback takes the first truthy value among the top-level \<^verbatim>\<open>institutionId\<close>, the nested
  institution object's \<^verbatim>\<open>id\<close> and the nested user object's \<^verbatim>\<open>institutionId\<close>, in this
  order, and that value is derived and persisted if it is a non-empty string; if it is
  not, nothing is derived or persisted. A falsy value at an earlier position
  (\<^verbatim>\<open>undefined\<close>, \<^verbatim>\<open>null\<close>, the empty string, zero, \<^verbatim>\<open>false\<close>) is passed over; when every
  truthy source is a string, the value derived is the first non-empty string among the
  three.
\<close>

theorem institution_fallback_order:
  "(\<not> present (nextInstitutionId n) \<longrightarrow>
      institution_fallback R (w, n) =
        (case nonempty_string (first_truthy (institution_sources R)) of
           Some s \<Rightarrow> (persistInstitutionId (Some s) w, n\<lparr>nextInstitutionId := Some s\<rparr>)
         | None \<Rightarrow> (w, n)))
   \<and> (nonempty_string (member (token_claims R) (js ''institutionId'')) = None \<longrightarrow>
        (\<exists>w' n'. applyAuthResponse R w = (w', Inr n')
           \<and> nextInstitutionId n' = nonempty_string (first_truthy (institution_sources R))
           \<and> (case nextInstitutionId n' of
                 Some s \<Rightarrow> institutionId w' = Some s
                            \<and> localStorage w' (js ''institutionId'') = Some s
               | None \<Rightarrow> institutionId w' = institutionId w
                         \<and> localStorage w' (js ''institutionId'')
                             = localStorage w (js ''institutionId''))))
   \<and> ((\<forall>v\<in>set (institution_sources R). truthy v \<longrightarrow> js_typeof v = ''string'') \<longrightarrow>
        nonempty_string (first_truthy (institution_sources R))
          = first_nonempty_string (institution_sources R))"
proof -
  let ?x = "applied R w"
  have v: "nonempty_string (member (token_claims R) (js ''institutionId'')) = None \<longrightarrow>
          nextInstitutionId (snd ?x) = nonempty_string (first_truthy (institution_sources R))
           \<and> (case nextInstitutionId (snd ?x) of
                 Some s \<Rightarrow> institutionId (fst ?x) = Some s
                            \<and> localStorage (fst ?x) (js ''institutionId'') = Some s
               | None \<Rightarrow> institutionId (fst ?x) = institutionId w
                         \<and> localStorage (fst ?x) (js ''institutionId'')
                             = localStorage w (js ''institutionId''))"
    by (simp add: view_projections(4,5,6) applied_institution_view
        maybeInstitutionId_first_truthy [symmetric] split: option.splits)
  have ap: "applyAuthResponse R w = (fst ?x, Inr (snd ?x))"
    by (rule applyAuthResponse_applied)
  have e: "nonempty_string (member (token_claims R) (js ''institutionId'')) = None \<longrightarrow>
        (\<exists>w' n'. applyAuthResponse R w = (w', Inr n')
           \<and> nextInstitutionId n' = nonempty_string (first_truthy (institution_sources R))
           \<and> (case nextInstitutionId n' of
                 Some s \<Rightarrow> institutionId w' = Some s
                            \<and> localStorage w' (js ''institutionId'') = Some s
               | None \<Rightarrow> institutionId w' = institutionId w
                         \<and> localStorage w' (js ''institutionId'')
                             = localStorage w (js ''institutionId'')))"
  proof
    assume "nonempty_string (member (token_claims R) (js ''institutionId'')) = None"
    with v have c: "nextInstitutionId (snd ?x) = nonempty_string (first_truthy (institution_sources R))
           \<and> (case nextInstitutionId (snd ?x) of
                 Some s \<Rightarrow> institutionId (fst ?x) = Some s
                            \<and> localStorage (fst ?x) (js ''institutionId'') = Some s
               | None \<Rightarrow> institutionId (fst ?x) = institutionId w
                         \<and> localStorage (fst ?x) (js ''institutionId'')
                             = localStorage w (js ''institutionId''))" ..
    show "\<exists>w' n'. applyAuthResponse R w = (w', Inr n')
           \<and> nextInstitutionId n' = nonempty_string (first_truthy (institution_sources R))
           \<and> (case nextInstitutionId n' of
                 Some s \<Rightarrow> institutionId w' = Some s
                            \<and> localStorage w' (js ''institutionId'') = Some s
               | None \<Rightarrow> institutionId w' = institutionId w
                         \<and> localStorage w' (js ''institutionId'')
                             = localStorage w (js ''institutionId''))"
      using ap c by (intro exI [of _ "fst ?x"] exI [of _ "snd ?x"]) (rule conjI)
  qed
  have f: "\<not> present (nextInstitutionId n) \<longrightarrow>
      institution_fallback R (w, n) =
        (case nonempty_string (first_truthy (institution_sources R)) of
           Some s \<Rightarrow> (persistInstitutionId (Some s) w, n\<lparr>nextInstitutionId := Some s\<rparr>)
         | None \<Rightarrow> (w, n))"
    using institution_fallback_first_truthy [of n R w] by (rule impI)
  have g: "(\<forall>v\<in>set (institution_sources R). truthy v \<longrightarrow> js_typeof v = ''string'') \<longrightarrow>
        nonempty_string (first_truthy (institution_sources R))
          = first_nonempty_string (institution_sources R)"
    using first_truthy_strings [of "institution_sources R"] by (rule impI)
  show ?thesis by (intro conjI) (fact f e g)+
qed

theorem institution_fallback_order_witness:
  "institution_sources scenarioB = [JUndefined, JStr (js ''inst-3''), JUndefined]
   \<and> member scenarioB (js ''institutionId'') = JUndefined
   \<and> first_truthy (institution_sources scenarioB) = JStr (js ''inst-3'')
   \<and> first_nonempty_string (institution_sources scenarioB) = Some (js ''inst-3'')
   \<and> snd (applyAuthResponse scenarioB fresh_world)
       = Inr \<lparr>nextRole = Some (js ''PUBLISHER''), nextInstitutionId = Some (js ''inst-3''),
              nextEmployeeId = Some (js ''emp-2'')\<rparr>
   \<and> localStorage (fst (applyAuthResponse scenarioB fresh_world)) (js ''institutionId'')
       = Some (js ''inst-3'')"
proof -
  have h: "nonempty_string (member (token_claims scenarioB) (js ''institutionId'')) = None"
    by code_simp
  have m: "member scenarioB (js ''institutionId'') = JUndefined" by code_simp
  have f: "first_truthy (institution_sources scenarioB) = JStr (js ''inst-3'')" by code_simp
  have src: "institution_sources scenarioB = [JUndefined, JStr (js ''inst-3''), JUndefined]"
    by code_simp
  then have str: "\<forall>v\<in>set (institution_sources scenarioB). truthy v \<longrightarrow> js_typeof v = ''string''"
    by simp
  have s: "snd (applyAuthResponse scenarioB fresh_world)
       = Inr \<lparr>nextRole = Some (js ''PUBLISHER''), nextInstitutionId = Some (js ''inst-3''),
              nextEmployeeId = Some (js ''emp-2'')\<rparr>"
    by code_simp
  have ne: "nonempty_string (JStr (js ''inst-3'')) = Some (js ''inst-3'')"
    by code_simp
  note inst = institution_fallback_order
         [of "\<lparr>nextRole = None, nextInstitutionId = None, nextEmployeeId = None\<rparr>"
             scenarioB fresh_world]
  from inst str f ne
  have g: "first_nonempty_string (institution_sources scenarioB) = Some (js ''inst-3'')"
    by simp
  from inst h
  obtain w' n' where a: "applyAuthResponse scenarioB fresh_world = (w', Inr n')"
    and b: "nextInstitutionId n' = nonempty_string (first_truthy (institution_sources scenarioB))"
    and c: "case nextInstitutionId n' of
                 Some s \<Rightarrow> institutionId w' = Some s
                            \<and> localStorage w' (js ''institutionId'') = Some s
               | None \<Rightarrow> institutionId w' = institutionId fresh_world
                         \<and> localStorage w' (js ''institutionId'')
                             = localStorage fresh_world (js ''institutionId'')"
    by blast
  from b f ne have "nextInstitutionId n' = Some (js ''inst-3'')" by simp
  with c have "localStorage w' (js ''institutionId'') = Some (js ''inst-3'')" by simp
  with a m f g s src show ?thesis by simp
qed

text \<open>
  C9 as stated fails: a truthy value that is not a string at an earlier position does
  prevent a later string from winning. With the number 7 as the top-level institution id
  and \<^verbatim>\<open>inst-3\<close> as the id of the nested institution object, the first non-empty string
  among the sources is \<^verbatim>\<open>inst-3\<close>, and nothing is derived or persisted.
\<close>

theorem institution_fallback_order_counterexample:
  "institution_sources numeric_institution_response
     = [JNum 7 0, JStr (js ''inst-3''), JUndefined]
   \<and> first_nonempty_string (institution_sources numeric_institution_response)
       = Some (js ''inst-3'')
   \<and> snd (applyAuthResponse numeric_institution_response fresh_world)
       = Inr \<lparr>nextRole = None, nextInstitutionId = None, nextEmployeeId = None\<rparr>
   \<and> institutionId (fst (applyAuthResponse numeric_institution_response fresh_world)) = None
   \<and> localStorage (fst (applyAuthResponse numeric_institution_response fresh_world))
        (js ''institutionId'') = None"
  by code_simp

subsection \<open>C10: the persist operations never store an empty value\<close>

text \<open>
  C10, as the code has it. Each of \<open>persistInstitutionId\<close>, \<open>persistRole\<close> and
  \<open>persistEmployeeId\<close>, called with \<^verbatim>\<open>null\<close> or with the empty string, removes its storage
  key; called with any other string it stores that string. Consequently no operation
  ever puts an empty string under one of the three keys: in every state the session can
  reach, a value found under one of them is a non-empty string, or it is an empty
  string that the storage already held under that key when the page was loaded.
\<close>

theorem persist_never_stores_empty:
  "(v = None \<or> v = Some [] \<longrightarrow>
      localStorage (persistInstitutionId v w) (js ''institutionId'') = None
      \<and> localStorage (persistRole v w) (js ''employeeRole'') = None
      \<and> localStorage (persistEmployeeId v w) (js ''employeeId'') = None)
   \<and> (v \<noteq> None \<and> v \<noteq> Some [] \<longrightarrow>
      localStorage (persistInstitutionId v w) (js ''institutionId'') = v
      \<and> localStorage (persistRole v w) (js ''employeeRole'') = v
      \<and> localStorage (persistEmployeeId v w) (js ''employeeId'') = v)
   \<and> (reachable st w' \<and> k \<in> session_keys \<and> localStorage w' k = Some s
        \<longrightarrow> s \<noteq> [] \<or> st k = Some [])"
proof -
  have "reachable st w' \<and> k \<in> session_keys \<and> localStorage w' k = Some s
        \<longrightarrow> s \<noteq> [] \<or> st k = Some []"
    using reachable_no_empty [of st w' k] by auto
  then show ?thesis
    by (cases v) (auto simp: persist_eqs)
qed

theorem persist_never_stores_empty_witness:
  "localStorage (persistRole (Some []) earlier_session) (js ''employeeRole'') = None
   \<and> localStorage earlier_session (js ''employeeRole'') = Some (js ''ADMIN'')
   \<and> localStorage (persistEmployeeId (Some (js ''emp-2'')) fresh_world) (js ''employeeId'')
       = Some (js ''emp-2'')
   \<and> reachable Map.empty (step (Login (Fulfilled scenarioB)) fresh_world)
   \<and> js ''institutionId'' \<in> session_keys
   \<and> localStorage (step (Login (Fulfilled scenarioB)) fresh_world) (js ''institutionId'')
       = Some (js ''inst-3'')
   \<and> js ''inst-3'' \<noteq> []"
proof -
  have r: "reachable Map.empty (step (Login (Fulfilled scenarioB)) fresh_world)"
    unfolding fresh_world_def by (intro reachable.after reachable.start)
  have k: "js ''institutionId'' \<in> session_keys" by (simp add: session_keys_def)
  have l: "localStorage (step (Login (Fulfilled scenarioB)) fresh_world) (js ''institutionId'')
       = Some (js ''inst-3'')"
    by code_simp
  have e: "localStorage earlier_session (js ''employeeRole'') = Some (js ''ADMIN'')"
    by (rule earlier_session_fields)
  have v: "Some (js ''emp-2'') \<noteq> None \<and> Some (js ''emp-2'') \<noteq> Some []"
    by (simp add: js_def)
  from persist_never_stores_empty [of "Some []" earlier_session Map.empty
      "step (Login (Fulfilled scenarioB)) fresh_world" "js ''institutionId''" "js ''inst-3''"]
    persist_never_stores_empty [of "Some (js ''emp-2'')" fresh_world Map.empty
      "step (Login (Fulfilled scenarioB)) fresh_world" "js ''institutionId''" "js ''inst-3''"]
    r k l e v
  show ?thesis by simp
qed

text \<open>
  C10 as stated fails for a value that was not written by the persist operations: the
  initialisers read the storage as it is and nothing rewrites a key that no response
  supplies. From a storage that holds the empty string under \<^verbatim>\<open>institutionId\<close>, a login
  with a response that carries an employee id and nothing else reaches an authenticated
  state with the empty string still under that key.
\<close>

theorem persist_never_stores_empty_counterexample:
  "reachable [js ''institutionId'' \<mapsto> []]
     (step (Login (Fulfilled employee_only_response))
        (initial_world [js ''institutionId'' \<mapsto> []]))
   \<and> js ''institutionId'' \<in> session_keys
   \<and> localStorage
        (step (Login (Fulfilled employee_only_response))
           (initial_world [js ''institutionId'' \<mapsto> []]))
        (js ''institutionId'') = Some []
   \<and> isAuthenticated
        (step (Login (Fulfilled employee_only_response))
           (initial_world [js ''institutionId'' \<mapsto> []]))"
proof -
  have r: "reachable [js ''institutionId'' \<mapsto> []]
     (step (Login (Fulfilled employee_only_response))
        (initial_world [js ''institutionId'' \<mapsto> []]))"
    by (intro reachable.after reachable.start)
  have k: "js ''institutionId'' \<in> session_keys" by (simp add: session_keys_def)
  have "localStorage
        (step (Login (Fulfilled employee_only_response))
           (initial_world [js ''institutionId'' \<mapsto> []]))
        (js ''institutionId'') = Some []
   \<and> isAuthenticated
        (step (Login (Fulfilled employee_only_response))
           (initial_world [js ''institutionId'' \<mapsto> []]))"
    by code_simp
  with r k show ?thesis by simp
qed

end
